theory Spec2Isabelle
  imports Complex_Main
begin

section \<open>The float64 values of the model\<close>

text \<open>
  Go's \<^verbatim>\<open>float64\<close> is modelled by its four kinds of value: a finite number, the two
  infinities and NaN. The special values follow IEEE 754 as Go implements it. A finite
  result is the exact real number: rounding, overflow to an infinity and underflow are
  outside this model, and there is one zero (the sign of a zero is not kept; a division
  of a non-zero number by zero treats the zero as positive).
\<close>

datatype float64 = Fin real | PInf | NInf | NaN

fun fneg :: "float64 \<Rightarrow> float64" where
  "fneg (Fin a) = Fin (- a)"
| "fneg PInf = NInf"
| "fneg NInf = PInf"
| "fneg NaN = NaN"

fun fadd :: "float64 \<Rightarrow> float64 \<Rightarrow> float64" where
  "fadd NaN _ = NaN"
| "fadd _ NaN = NaN"
| "fadd PInf NInf = NaN"
| "fadd NInf PInf = NaN"
| "fadd PInf _ = PInf"
| "fadd _ PInf = PInf"
| "fadd NInf _ = NInf"
| "fadd _ NInf = NInf"
| "fadd (Fin a) (Fin b) = Fin (a + b)"

fun fmul :: "float64 \<Rightarrow> float64 \<Rightarrow> float64" where
  "fmul NaN _ = NaN"
| "fmul _ NaN = NaN"
| "fmul (Fin a) (Fin b) = Fin (a * b)"
| "fmul (Fin a) PInf = (if a = 0 then NaN else if 0 < a then PInf else NInf)"
| "fmul (Fin a) NInf = (if a = 0 then NaN else if 0 < a then NInf else PInf)"
| "fmul PInf (Fin b) = (if b = 0 then NaN else if 0 < b then PInf else NInf)"
| "fmul NInf (Fin b) = (if b = 0 then NaN else if 0 < b then NInf else PInf)"
| "fmul PInf PInf = PInf"
| "fmul PInf NInf = NInf"
| "fmul NInf PInf = NInf"
| "fmul NInf NInf = PInf"

fun fdiv :: "float64 \<Rightarrow> float64 \<Rightarrow> float64" where
  "fdiv NaN _ = NaN"
| "fdiv _ NaN = NaN"
| "fdiv (Fin a) (Fin b) =
     (if b = 0 then (if a = 0 then NaN else if 0 < a then PInf else NInf)
      else Fin (a / b))"
| "fdiv (Fin a) PInf = Fin 0"
| "fdiv (Fin a) NInf = Fin 0"
| "fdiv PInf (Fin b) = (if 0 \<le> b then PInf else NInf)"
| "fdiv NInf (Fin b) = (if 0 \<le> b then NInf else PInf)"
| "fdiv PInf PInf = NaN"
| "fdiv PInf NInf = NaN"
| "fdiv NInf PInf = NaN"
| "fdiv NInf NInf = NaN"

text \<open>The comparisons \<^verbatim>\<open><\<close> and \<^verbatim>\<open>==\<close>: every comparison with NaN is false.\<close>

fun flt :: "float64 \<Rightarrow> float64 \<Rightarrow> bool" where
  "flt NaN _ = False"
| "flt _ NaN = False"
| "flt (Fin a) (Fin b) = (a < b)"
| "flt (Fin a) PInf = True"
| "flt (Fin a) NInf = False"
| "flt PInf _ = False"
| "flt NInf (Fin b) = True"
| "flt NInf PInf = True"
| "flt NInf NInf = False"

fun feq :: "float64 \<Rightarrow> float64 \<Rightarrow> bool" where
  "feq NaN _ = False"
| "feq _ NaN = False"
| "feq a b = (a = b)"

instantiation float64 :: "{plus, minus, times, inverse, ord}"
begin

definition plus_float64 :: "float64 \<Rightarrow> float64 \<Rightarrow> float64" where
  "plus_float64 a b = fadd a b"

definition minus_float64 :: "float64 \<Rightarrow> float64 \<Rightarrow> float64" where
  "minus_float64 a b = fadd a (fneg b)"

definition times_float64 :: "float64 \<Rightarrow> float64 \<Rightarrow> float64" where
  "times_float64 a b = fmul a b"

definition divide_float64 :: "float64 \<Rightarrow> float64 \<Rightarrow> float64" where
  "divide_float64 a b = fdiv a b"

definition inverse_float64 :: "float64 \<Rightarrow> float64" where
  "inverse_float64 a = fdiv (Fin 1) a"

definition less_float64 :: "float64 \<Rightarrow> float64 \<Rightarrow> bool" where
  "less_float64 a b = flt a b"

definition less_eq_float64 :: "float64 \<Rightarrow> float64 \<Rightarrow> bool" where
  "less_eq_float64 a b = (flt a b \<or> feq a b)"

instance ..

end

text \<open>
  Go's built-in \<^verbatim>\<open>min\<close> and \<^verbatim>\<open>max\<close> on floats: NaN when an argument is NaN.
  (The \<open>min\<close> and \<open>max\<close> of HOL are not used on \<open>float64\<close>.)
\<close>

definition go_max :: "float64 \<Rightarrow> float64 \<Rightarrow> float64" where
  "go_max a b = (if a = NaN \<or> b = NaN then NaN else if a < b then b else a)"

definition go_min :: "float64 \<Rightarrow> float64 \<Rightarrow> float64" where
  "go_min a b = (if a = NaN \<or> b = NaN then NaN else if b < a then b else a)"

definition go_min3 :: "float64 \<Rightarrow> float64 \<Rightarrow> float64 \<Rightarrow> float64" where
  "go_min3 a b c = go_min (go_min a b) c"

subsection \<open>The functions of Go's package math that the source calls\<close>

fun math_Abs :: "float64 \<Rightarrow> float64" where
  "math_Abs (Fin a) = Fin \<bar>a\<bar>"
| "math_Abs PInf = PInf"
| "math_Abs NInf = PInf"
| "math_Abs NaN = NaN"

fun math_Sqrt :: "float64 \<Rightarrow> float64" where
  "math_Sqrt (Fin a) = (if a < 0 then NaN else Fin (sqrt a))"
| "math_Sqrt PInf = PInf"
| "math_Sqrt NInf = NaN"
| "math_Sqrt NaN = NaN"

text \<open>
  \<^verbatim>\<open>math.Pow(x, y)\<close>, with the special cases in the order of its documentation.
  \<open>odd_integer y\<close> and \<open>is_integer y\<close> classify a finite exponent.
\<close>

definition is_integer :: "real \<Rightarrow> bool" where
  "is_integer y = (y = of_int \<lfloor>y\<rfloor>)"

definition odd_integer :: "real \<Rightarrow> bool" where
  "odd_integer y = (is_integer y \<and> odd \<lfloor>y\<rfloor>)"

definition pow_zero :: "float64 \<Rightarrow> float64" where
  "pow_zero y =
     (case y of
        NInf \<Rightarrow> PInf
      | PInf \<Rightarrow> Fin 0
      | Fin b \<Rightarrow> (if b < 0 then PInf else Fin 0)
      | NaN \<Rightarrow> NaN)"

definition math_Pow :: "float64 \<Rightarrow> float64 \<Rightarrow> float64" where
  "math_Pow x y =
     (if y = Fin 0 then Fin 1
      else if x = Fin 1 then Fin 1
      else if y = Fin 1 then x
      else if x = NaN \<or> y = NaN then NaN
      else if x = Fin 0 then pow_zero y
      else
        (case y of
           PInf \<Rightarrow>
             (if x = Fin (- 1) then Fin 1
              else if Fin 1 < math_Abs x then PInf else Fin 0)
         | NInf \<Rightarrow>
             (if x = Fin (- 1) then Fin 1
              else if Fin 1 < math_Abs x then Fin 0 else PInf)
         | Fin b \<Rightarrow>
             (case x of
                PInf \<Rightarrow> (if 0 < b then PInf else Fin 0)
              | NInf \<Rightarrow>
                  (if 0 < b then (if odd_integer b then NInf else PInf) else Fin 0)
              | Fin a \<Rightarrow>
                  (if 0 < a then Fin (a powr b)
                   else if is_integer b
                     then Fin ((if odd_integer b then - 1 else 1) * (\<bar>a\<bar> powr b))
                   else NaN)
              | NaN \<Rightarrow> NaN)
         | NaN \<Rightarrow> NaN))"

text \<open>
  \<^verbatim>\<open>math.Nextafter(x, math.Inf(1))\<close>: the next representable value above \<open>x\<close>.
  For a finite \<open>x\<close> it is \<open>x\<close> plus the spacing of the binary64 numbers at \<open>x\<close>
  (52 fraction bits, least exponent -1022, least positive number \<open>2 ^ -1074\<close>);
  above the largest finite number comes the infinity.
\<close>

definition MaxFloat64 :: real where
  "MaxFloat64 = 2 ^ 1024 - 2 ^ 971"

definition binade :: "real \<Rightarrow> int" where
  "binade a = max \<lfloor>log 2 \<bar>a\<bar>\<rfloor> (- 1022)"

definition spacing_up :: "real \<Rightarrow> real" where
  "spacing_up a =
     (if a = 0 then 2 powi (- 1074)
      else if a < 0 \<and> \<bar>a\<bar> = 2 powi (binade a) \<and> - 1022 < binade a
        then 2 powi (binade a - 53)
      else 2 powi (binade a - 52))"

fun Nextafter_Inf :: "float64 \<Rightarrow> float64" where
  "Nextafter_Inf NaN = NaN"
| "Nextafter_Inf PInf = PInf"
| "Nextafter_Inf NInf = Fin (- MaxFloat64)"
| "Nextafter_Inf (Fin a) = (if MaxFloat64 \<le> a then PInf else Fin (a + spacing_up a))"

section \<open>The program\<close>

subsection \<open>Slices, the derivative callback, errors\<close>

text \<open>
  A \<^verbatim>\<open>[]float64\<close> is the list of its elements; \<open>make_slice n\<close> is the zeroed slice
  \<^verbatim>\<open>make([]float64, n)\<close> and \<open>copy_slice\<close> is Go's \<^verbatim>\<open>copy(dst, src)\<close>.
\<close>

definition make_slice :: "nat \<Rightarrow> float64 list" where
  "make_slice n = replicate n (Fin 0)"

definition copy_slice :: "float64 list \<Rightarrow> float64 list \<Rightarrow> float64 list" where
  "copy_slice dst src = take (length dst) src @ drop (length src) dst"

text \<open>
  \<^verbatim>\<open>type DydxFunc func(dydx []float64, x float64, y []float64)\<close> writes the derivative
  into \<^verbatim>\<open>dydx\<close>. The callback is a pure function of \<open>x\<close> and \<open>y\<close> that gives the
  elements it writes; \<open>call_dydx\<close> is the call on a buffer: the buffer keeps its
  length, and the elements the callback does not write keep their contents.
\<close>

type_synonym DydxFunc = "float64 \<Rightarrow> float64 list \<Rightarrow> float64 list"

definition call_dydx :: "DydxFunc \<Rightarrow> float64 list \<Rightarrow> float64 \<Rightarrow> float64 list \<Rightarrow> float64 list" where
  "call_dydx dydxFunc dydx x y =
     take (length dydx) (dydxFunc x y) @ drop (length (dydxFunc x y)) dydx"

datatype error = ErrTooSmallStep | Wrap error string

record tolerance =
  tol_abs :: float64
  tol_rel :: float64

text \<open>The interface \<^verbatim>\<open>rungeKutta\<close>: its two methods. \<open>rk_yPlusH\<close> takes the buffers
  \<^verbatim>\<open>yPlusH\<close> and \<^verbatim>\<open>te\<close> and returns their new contents.\<close>

record rungeKutta =
  rk_errorOrder :: int
  rk_yPlusH :: "float64 list \<Rightarrow> float64 list \<Rightarrow> DydxFunc \<Rightarrow> float64 \<Rightarrow> float64 list
                 \<Rightarrow> float64 \<Rightarrow> float64 list \<times> float64 list"

subsection \<open>dormandPrince\<close>

definition dp_c :: "float64 list" where
  "dp_c = map Fin [0, 1 / 5, 3 / 10, 4 / 5, 8 / 9, 1, 1]"

definition dp_a :: "float64 list list" where
  "dp_a = map (map Fin)
     [[0, 0, 0, 0, 0, 0],
      [1 / 5, 0, 0, 0, 0, 0],
      [3 / 40, 9 / 40, 0, 0, 0, 0],
      [44 / 45, - 56 / 15, 32 / 9, 0, 0, 0],
      [19372 / 6561, - 25360 / 2187, 64448 / 6561, - 212 / 729, 0, 0],
      [9017 / 3168, - 355 / 33, 46732 / 5247, 49 / 176, - 5103 / 18656, 0],
      [35 / 384, 0, 500 / 1113, 125 / 192, - 2187 / 6784, 11 / 84]]"

definition dp_b :: "float64 list" where
  "dp_b = map Fin [35 / 384, 0, 500 / 1113, 125 / 192, - 2187 / 6784, 11 / 84, 0]"

definition dp_e :: "float64 list" where
  "dp_e = map Fin [- 71 / 57600, 0, 71 / 16695, - 71 / 1920, 17253 / 339200, - 22 / 525, 1 / 40]"

text \<open>The evaluation point \<^verbatim>\<open>yItp\<close> of stage \<open>i\<close>, from the stage derivatives \<open>k\<close>
  computed so far (the inner loops of lines 199 to 204).\<close>

definition dp_yItp :: "float64 list list \<Rightarrow> float64 list \<Rightarrow> float64 \<Rightarrow> nat \<Rightarrow> float64 list" where
  "dp_yItp k y h i =
     map (\<lambda>j. fold (\<lambda>l acc. acc + dp_a ! i ! l * k ! l ! j * h) [0..<length k - 1] (y ! j))
       [0..<length y]"

text \<open>The stage loop (lines 191 to 207): the stage derivatives \<open>k\<close>.\<close>

definition dp_stage :: "DydxFunc \<Rightarrow> float64 \<Rightarrow> float64 list \<Rightarrow> float64 \<Rightarrow> nat
    \<Rightarrow> float64 list list \<Rightarrow> float64 list list" where
  "dp_stage dydxFunc x y h i k =
     (let xItp = x + dp_c ! i * h;
          yItp = dp_yItp k y h i
      in k[i := call_dydx dydxFunc (k ! i) xItp yItp])"

definition dp_k :: "DydxFunc \<Rightarrow> float64 \<Rightarrow> float64 list \<Rightarrow> float64 \<Rightarrow> float64 list list" where
  "dp_k dydxFunc x y h =
     fold (dp_stage dydxFunc x y h) [0..<length dp_c]
       (replicate (length dp_c) (make_slice (length y)))"

definition dormandPrince_errorOrder :: int where
  "dormandPrince_errorOrder = 4"

definition dormandPrince_yPlusH :: "float64 list \<Rightarrow> float64 list \<Rightarrow> DydxFunc \<Rightarrow> float64
    \<Rightarrow> float64 list \<Rightarrow> float64 \<Rightarrow> float64 list \<times> float64 list" where
  "dormandPrince_yPlusH yPlusH te dydxFunc x y h =
     (let k = dp_k dydxFunc x y h;
          yPlusH = map (\<lambda>i. fold (\<lambda>j acc. acc + dp_b ! j * h * k ! j ! i) [0..<length dp_b] (y ! i))
                     [0..<length yPlusH];
          te = map (\<lambda>i. fold (\<lambda>j acc. acc + dp_e ! j * k ! j ! i) [0..<length dp_e] (Fin 0))
                 [0..<length te]
      in (yPlusH, te))"

definition dormandPrince :: rungeKutta where
  "dormandPrince = \<lparr>rk_errorOrder = dormandPrince_errorOrder, rk_yPlusH = dormandPrince_yPlusH\<rparr>"

subsection \<open>rungeKuttaStep\<close>

definition maxFactor :: float64 where "maxFactor = Fin 10"
definition minFactor :: float64 where "minFactor = Fin (2 / 10)"
definition safety :: float64 where "safety = Fin (9 / 10)"

definition minStep_of :: "float64 \<Rightarrow> float64" where
  "minStep_of x = Fin 10 * math_Abs (Nextafter_Inf x - x)"

text \<open>Lines 69 to 73: the trial point, clamped to \<open>xMax\<close>; the result is \<open>(xPlusH, h)\<close>.\<close>

definition clamp_step :: "float64 \<Rightarrow> float64 \<Rightarrow> float64 \<Rightarrow> float64 \<times> float64" where
  "clamp_step x h xMax =
     (let xPlusH = x + h in if xMax < xPlusH then (xMax, xMax - x) else (xPlusH, h))"

text \<open>Lines 79 to 87.\<close>

definition step_scale :: "tolerance \<Rightarrow> float64 list \<Rightarrow> float64 list \<Rightarrow> float64 list" where
  "step_scale tol y yPlusH =
     map (\<lambda>i. tol_abs tol + tol_rel tol * go_max (math_Abs (y ! i)) (math_Abs (yPlusH ! i)))
       [0..<length y]"

definition step_errorNorm :: "float64 list \<Rightarrow> float64 \<Rightarrow> float64 list \<Rightarrow> float64" where
  "step_errorNorm te h scale =
     math_Sqrt
       (fold (\<lambda>i acc. acc + math_Pow (te ! i * h / scale ! i) (Fin 2)) [0..<length te] (Fin 0)
        / Fin (real (length te)))"

definition step_exponent :: "rungeKutta \<Rightarrow> float64" where
  "step_exponent rk = Fin (- 1) / (Fin (real_of_int (rk_errorOrder rk)) + Fin 1)"

text \<open>
  The loop of \<^verbatim>\<open>rungeKuttaStep\<close> (lines 64 to 111). The result is
  \<open>(xPlusH, newH, err, yPlusH, te)\<close>: the three results of the Go function and the
  contents it leaves in the two buffers. \<open>None\<close> is a loop that never returns.
\<close>

partial_function (option) rungeKuttaStep_loop ::
  "rungeKutta \<Rightarrow> DydxFunc \<Rightarrow> float64 \<Rightarrow> float64 list \<Rightarrow> float64 \<Rightarrow> tolerance \<Rightarrow> float64
   \<Rightarrow> float64 list \<Rightarrow> float64 list \<Rightarrow> float64 \<Rightarrow> bool
   \<Rightarrow> (float64 \<times> float64 \<times> error option \<times> float64 list \<times> float64 list) option" where
  "rungeKuttaStep_loop rk dydxFunc x y xMax tol minStep yPlusH te h rejected =
     (if h < minStep then Some (NaN, NaN, Some ErrTooSmallStep, yPlusH, te)
      else
        (let (xPlusH, h) = clamp_step x h xMax;
             (yPlusH, te) = rk_yPlusH rk yPlusH te dydxFunc x y h;
             scale = step_scale tol y yPlusH;
             errorNorm = step_errorNorm te h scale;
             exponent = step_exponent rk
         in if errorNorm < Fin 1 then
              (let factor = (if feq errorNorm (Fin 0) then maxFactor
                             else go_min (safety * math_Pow errorNorm exponent) maxFactor);
                   factor = (if rejected then go_min (Fin 1) factor else factor);
                   newH = h * factor
               in Some (xPlusH, newH, None, yPlusH, te))
            else
              rungeKuttaStep_loop rk dydxFunc x y xMax tol minStep yPlusH te
                (h * go_max (safety * math_Pow errorNorm exponent) minFactor) True))"

definition rungeKuttaStep ::
  "float64 list \<Rightarrow> float64 list \<Rightarrow> rungeKutta \<Rightarrow> DydxFunc \<Rightarrow> float64 \<Rightarrow> float64 list \<Rightarrow> float64
   \<Rightarrow> float64 \<Rightarrow> tolerance
   \<Rightarrow> (float64 \<times> float64 \<times> error option \<times> float64 list \<times> float64 list) option" where
  "rungeKuttaStep yPlusH te rk dydxFunc x y h xMax tol =
     (let minStep = minStep_of x;
          rejected = False
      in rungeKuttaStep_loop rk dydxFunc x y xMax tol minStep yPlusH te h rejected)"

text \<open>
  The parts of one pass through the loop, named for the theorems. \<open>step_try\<close> is the
  pass up to the error norm (lines 69 to 87): \<open>(xPlusH, h, yPlusH, te, errorNorm)\<close>,
  with \<open>h\<close> the step size after the clamp. \<open>accept_factor\<close> and \<open>reject_factor\<close>
  are the factors of lines 96 to 103 and of line 108. \<open>step_retry\<close> is the state
  \<open>(yPlusH, te, h)\<close> in which the loop goes round again after a rejected pass.
\<close>

definition step_try :: "rungeKutta \<Rightarrow> DydxFunc \<Rightarrow> float64 \<Rightarrow> float64 list \<Rightarrow> float64 \<Rightarrow> tolerance
    \<Rightarrow> float64 list \<Rightarrow> float64 list \<Rightarrow> float64
    \<Rightarrow> float64 \<times> float64 \<times> float64 list \<times> float64 list \<times> float64" where
  "step_try rk dydxFunc x y xMax tol yPlusH te h =
     (let (xPlusH, h) = clamp_step x h xMax;
          (yPlusH, te) = rk_yPlusH rk yPlusH te dydxFunc x y h;
          scale = step_scale tol y yPlusH;
          errorNorm = step_errorNorm te h scale
      in (xPlusH, h, yPlusH, te, errorNorm))"

definition accept_factor :: "rungeKutta \<Rightarrow> float64 \<Rightarrow> bool \<Rightarrow> float64" where
  "accept_factor rk errorNorm rejected =
     (let exponent = step_exponent rk;
          factor = (if feq errorNorm (Fin 0) then maxFactor
                    else go_min (safety * math_Pow errorNorm exponent) maxFactor);
          factor = (if rejected then go_min (Fin 1) factor else factor)
      in factor)"

definition reject_factor :: "rungeKutta \<Rightarrow> float64 \<Rightarrow> float64" where
  "reject_factor rk errorNorm =
     go_max (safety * math_Pow errorNorm (step_exponent rk)) minFactor"

definition step_retry :: "rungeKutta \<Rightarrow> DydxFunc \<Rightarrow> float64 \<Rightarrow> float64 list \<Rightarrow> float64 \<Rightarrow> tolerance
    \<Rightarrow> float64 list \<times> float64 list \<times> float64 \<Rightarrow> float64 list \<times> float64 list \<times> float64" where
  "step_retry rk dydxFunc x y xMax tol s =
     (case s of (yPlusH, te, h) \<Rightarrow>
        (case step_try rk dydxFunc x y xMax tol yPlusH te h of
           (xPlusH, h, yPlusH, te, errorNorm) \<Rightarrow> (yPlusH, te, h * reject_factor rk errorNorm)))"

text \<open>\<open>step_rejects\<close>: a pass from this state goes past the guard and is rejected.\<close>

definition step_rejects :: "rungeKutta \<Rightarrow> DydxFunc \<Rightarrow> float64 \<Rightarrow> float64 list \<Rightarrow> float64 \<Rightarrow> tolerance
    \<Rightarrow> float64 \<Rightarrow> float64 list \<times> float64 list \<times> float64 \<Rightarrow> bool" where
  "step_rejects rk dydxFunc x y xMax tol minStep s =
     (case s of (yPlusH, te, h) \<Rightarrow>
        \<not> h < minStep \<and>
        (case step_try rk dydxFunc x y xMax tol yPlusH te h of
           (xPlusH, h, yPlusH, te, errorNorm) \<Rightarrow> \<not> errorNorm < Fin 1))"

subsection \<open>getFirstStep\<close>

text \<open>
  \<open>getFirstStep\<close> returns the step size together with the list of the calls of the
  derivative callback it made, each as its arguments \<open>(x, y)\<close>, in order:
  \<open>call_logged\<close> is \<open>call_dydx\<close> that also appends its call to the log.
\<close>

definition call_logged :: "DydxFunc \<Rightarrow> float64 list \<Rightarrow> float64 \<Rightarrow> float64 list
    \<Rightarrow> (float64 \<times> float64 list) list \<Rightarrow> float64 list \<times> (float64 \<times> float64 list) list" where
  "call_logged dydxFunc dydx x y calls = (call_dydx dydxFunc dydx x y, calls @ [(x, y)])"

definition rms_sum :: "(nat \<Rightarrow> float64) \<Rightarrow> nat \<Rightarrow> float64" where
  "rms_sum elem n = fold (\<lambda>i acc. acc + math_Pow (elem i) (Fin 2)) [0..<n] (Fin 0)"

definition getFirstStep :: "rungeKutta \<Rightarrow> DydxFunc \<Rightarrow> float64 \<times> float64 \<Rightarrow> float64 list
    \<Rightarrow> tolerance \<Rightarrow> float64 \<times> (float64 \<times> float64 list) list" where
  "getFirstStep rk dydxFunc xspan y0 tol =
     (let (dydx0, calls) = call_logged dydxFunc (make_slice (length y0)) (fst xspan) y0 [];
          scale = map (\<lambda>y. tol_abs tol + math_Abs y * tol_rel tol) y0;
          d0 = rms_sum (\<lambda>i. y0 ! i / scale ! i) (length scale);
          d1 = rms_sum (\<lambda>i. dydx0 ! i / scale ! i) (length scale);
          d0 = math_Sqrt (d0 / Fin (real (length scale)));
          d1 = math_Sqrt (d1 / Fin (real (length scale)));
          h0 = (if d0 < Fin (1 / 10 ^ 5) \<or> d1 < Fin (1 / 10 ^ 6) then Fin (1 / 10 ^ 6)
                else Fin (1 / 100) * d0 / d1);
          h0 = go_min h0 (snd xspan - fst xspan);
          y1 = map (\<lambda>i. y0 ! i + h0 * dydx0 ! i) [0..<length y0];
          (dydx1, calls) = call_logged dydxFunc (make_slice (length y0)) (fst xspan + h0) y1 calls;
          d2 = rms_sum (\<lambda>i. (dydx1 ! i - dydx0 ! i) / scale ! i) (length dydx0);
          d2 = math_Sqrt (d2 / Fin (real (length scale))) / h0;
          h1 = (if d1 \<le> Fin (1 / 10 ^ 15) \<and> d2 \<le> Fin (1 / 10 ^ 15)
                then go_max (Fin (1 / 10 ^ 6)) (h0 * Fin (1 / 10 ^ 3))
                else (let order = Fin (real_of_int (rk_errorOrder rk))
                      in math_Pow (Fin (1 / 100) / go_max d1 d2) (Fin 1 / (order + Fin 1))))
      in (go_min3 (Fin 100 * h0) h1 (snd xspan - fst xspan), calls))"

subsection \<open>rungeKuttaIntegrate and DormandPrince\<close>

text \<open>
  The loop of \<^verbatim>\<open>rungeKuttaIntegrate\<close> (lines 41 to 56), on the variables it updates.
  The result is \<open>(xs, ys, err)\<close>; a \<^verbatim>\<open>nil\<close> slice is the empty list. \<open>None\<close> is
  a call that never returns.
\<close>

partial_function (option) rungeKuttaIntegrate_loop ::
  "rungeKutta \<Rightarrow> DydxFunc \<Rightarrow> float64 \<times> float64 \<Rightarrow> float64 list \<Rightarrow> tolerance
   \<Rightarrow> float64 list \<Rightarrow> float64 list list \<Rightarrow> float64 \<Rightarrow> float64 list \<Rightarrow> float64 list \<Rightarrow> float64
   \<Rightarrow> (float64 list \<times> float64 list list \<times> error option) option" where
  "rungeKuttaIntegrate_loop rk dydxFunc xspan y0 tol xs ys x y te h =
     (if x < snd xspan then
        (let yPlusH = make_slice (length y0)
         in Option.bind (rungeKuttaStep yPlusH te rk dydxFunc x y h (snd xspan) tol)
              (\<lambda>(xPlusH, newH, err, yPlusH, te).
                 case err of
                   Some e \<Rightarrow> Some ([], [], Some (Wrap e []))
                 | None \<Rightarrow>
                     rungeKuttaIntegrate_loop rk dydxFunc xspan y0 tol
                       (xs @ [xPlusH]) (ys @ [yPlusH]) xPlusH (copy_slice y yPlusH) te newH))
      else Some (xs, ys, None))"

text \<open>
  \<^verbatim>\<open>rungeKuttaIntegrate\<close> (lines 30 to 59). \<open>rungeKuttaIntegrate_logged\<close> is the
  function with, beside its results, the log of the calls of the derivative callback it
  has made when it enters the loop of line 41: the calls \<open>getFirstStep\<close> made (line 35);
  nothing else calls the callback before the loop. \<open>rungeKuttaIntegrate\<close> is the three
  results of the Go function.
\<close>

definition rungeKuttaIntegrate_logged :: "rungeKutta \<Rightarrow> DydxFunc \<Rightarrow> float64 \<times> float64 \<Rightarrow> float64 list
    \<Rightarrow> (float64 list \<times> float64 list list \<times> error option) option \<times> (float64 \<times> float64 list) list" where
  "rungeKuttaIntegrate_logged rk dydxFunc xspan y0 =
     (let xs = [] @ [fst xspan];
          ys = [] @ [y0];
          tol = \<lparr>tol_abs = Fin (1 / 10 ^ 6), tol_rel = Fin (1 / 10 ^ 3)\<rparr>;
          (h, calls) = getFirstStep rk dydxFunc xspan y0 tol;
          x = fst xspan;
          y = copy_slice (make_slice (length y0)) y0;
          te = make_slice (length y0)
      in (rungeKuttaIntegrate_loop rk dydxFunc xspan y0 tol xs ys x y te h, calls))"

definition rungeKuttaIntegrate :: "rungeKutta \<Rightarrow> DydxFunc \<Rightarrow> float64 \<times> float64 \<Rightarrow> float64 list
    \<Rightarrow> (float64 list \<times> float64 list list \<times> error option) option" where
  "rungeKuttaIntegrate rk dydxFunc xspan y0 = fst (rungeKuttaIntegrate_logged rk dydxFunc xspan y0)"

text \<open>\<^verbatim>\<open>DormandPrince\<close> (lines 20 to 23), with the log and without it.\<close>

definition DormandPrince_logged :: "DydxFunc \<Rightarrow> float64 \<times> float64 \<Rightarrow> float64 list
    \<Rightarrow> (float64 list \<times> float64 list list \<times> error option) option \<times> (float64 \<times> float64 list) list" where
  "DormandPrince_logged dydxFunc xspan y0 =
     (let rk = dormandPrince in rungeKuttaIntegrate_logged rk dydxFunc xspan y0)"

definition DormandPrince :: "DydxFunc \<Rightarrow> float64 \<times> float64 \<Rightarrow> float64 list
    \<Rightarrow> (float64 list \<times> float64 list list \<times> error option) option" where
  "DormandPrince dydxFunc xspan y0 = fst (DormandPrince_logged dydxFunc xspan y0)"

section \<open>Finite values and the stages one by one\<close>



section \<open>The step controller in the words of the specification\<close>

text \<open>
  These three definitions follow the specification (section 4.2), not the source:
  \<open>errorNorm = sqrt((1/n) * \<Sigma> (te[m]*h/scale[m])^2)\<close>, the factor of an accepted step
  (\<open>maxFactor\<close> when the norm is 0, else \<open>min(safety * errorNorm^exponent, maxFactor)\<close>,
  clamped to at most 1 after a rejection) and the factor of a rejected step
  (\<open>max(safety * errorNorm^exponent, minFactor)\<close>), with \<open>exponent = -1/(errorOrder+1)\<close>,
  \<open>safety = 0.9\<close>, \<open>maxFactor = 10\<close>, \<open>minFactor = 0.2\<close>. They are compared with the
  source's computation in the theorem of claim C2.
\<close>

definition spec_errorNorm :: "float64 list \<Rightarrow> float64 \<Rightarrow> float64 list \<Rightarrow> float64" where
  "spec_errorNorm te h scale =
     (let n = length te
      in math_Sqrt (Fin 1 / Fin (real n) *
           fold (\<lambda>m s. s + (te ! m * h / scale ! m) * (te ! m * h / scale ! m)) [0..<n] (Fin 0)))"

definition spec_exponent :: "int \<Rightarrow> float64" where
  "spec_exponent errorOrder = Fin (- 1) / (Fin (real_of_int errorOrder) + Fin 1)"

definition spec_accept_factor :: "int \<Rightarrow> float64 \<Rightarrow> bool \<Rightarrow> float64" where
  "spec_accept_factor errorOrder errorNorm rejected =
     (let factor = (if feq errorNorm (Fin 0) then Fin 10
                    else go_min (Fin (9 / 10) * math_Pow errorNorm (spec_exponent errorOrder)) (Fin 10))
      in if rejected then go_min (Fin 1) factor else factor)"

definition spec_reject_factor :: "int \<Rightarrow> float64 \<Rightarrow> float64" where
  "spec_reject_factor errorOrder errorNorm =
     go_max (Fin (9 / 10) * math_Pow errorNorm (spec_exponent errorOrder)) (Fin (2 / 10))"

section \<open>The initial step in the words of the specification\<close>





section \<open>The driver on a store of slices\<close>

text \<open>
  For the claim about shared storage the driver is modelled once more with its slices
  as addresses into a store: \<open>st_cells\<close> gives the contents of the slice at an address
  and \<open>st_free\<close> is the next unused address. \<open>make_st\<close> is \<^verbatim>\<open>make([]float64, n)\<close>: a new
  zeroed slice at a fresh address; \<open>write_st\<close> overwrites the contents of a slice.
  \<open>y0\<close>, \<open>y\<close>, \<open>te\<close> and \<open>yPlusH\<close> are addresses and \<open>ys\<close> is a list of addresses:
  \<^verbatim>\<open>append(ys, y0)\<close> stores the slice itself, not its elements. \<open>rungeKuttaStep\<close> writes
  the two buffers it is given, \<open>yPlusH\<close> and \<open>te\<close>, and \<open>copy(y, yPlusH)\<close> writes \<open>y\<close>.
  The slices that \<open>getFirstStep\<close>, \<open>rungeKuttaStep\<close> and \<open>yPlusH\<close> make for
  themselves and do not return are not kept in the store, and the derivative callback
  is a pure function, as everywhere in this development.
\<close>

record store =
  st_cells :: "nat \<Rightarrow> float64 list"
  st_free :: nat

definition make_st :: "store \<Rightarrow> nat \<Rightarrow> nat \<times> store" where
  "make_st st n =
     (st_free st, st\<lparr>st_cells := (st_cells st)(st_free st := make_slice n), st_free := Suc (st_free st)\<rparr>)"

definition write_st :: "store \<Rightarrow> nat \<Rightarrow> float64 list \<Rightarrow> store" where
  "write_st st a v = st\<lparr>st_cells := (st_cells st)(a := v)\<rparr>"

partial_function (option) rungeKuttaIntegrate_loop_st ::
  "rungeKutta \<Rightarrow> DydxFunc \<Rightarrow> float64 \<times> float64 \<Rightarrow> nat \<Rightarrow> tolerance
   \<Rightarrow> float64 list \<Rightarrow> nat list \<Rightarrow> float64 \<Rightarrow> nat \<Rightarrow> nat \<Rightarrow> float64 \<Rightarrow> store
   \<Rightarrow> ((float64 list \<times> nat list \<times> error option) \<times> store) option" where
  "rungeKuttaIntegrate_loop_st rk dydxFunc xspan y0 tol xs ys x y te h st =
     (if x < snd xspan then
        (let (yPlusH, st) = make_st st (length (st_cells st y0))
         in Option.bind
              (rungeKuttaStep (st_cells st yPlusH) (st_cells st te) rk dydxFunc x (st_cells st y) h
                 (snd xspan) tol)
              (\<lambda>(xPlusH, newH, err, yPlusH_new, te_new).
                 (let st = write_st (write_st st yPlusH yPlusH_new) te te_new
                  in case err of
                       Some e \<Rightarrow> Some (([], [], Some (Wrap e [])), st)
                     | None \<Rightarrow>
                         rungeKuttaIntegrate_loop_st rk dydxFunc xspan y0 tol
                           (xs @ [xPlusH]) (ys @ [yPlusH]) xPlusH y te newH
                           (write_st st y (copy_slice (st_cells st y) (st_cells st yPlusH))))))
      else Some ((xs, ys, None), st))"

definition rungeKuttaIntegrate_st :: "rungeKutta \<Rightarrow> DydxFunc \<Rightarrow> float64 \<times> float64 \<Rightarrow> nat \<Rightarrow> store
    \<Rightarrow> ((float64 list \<times> nat list \<times> error option) \<times> store) option" where
  "rungeKuttaIntegrate_st rk dydxFunc xspan y0 st =
     (let xs = [] @ [fst xspan];
          ys = [] @ [y0];
          tol = \<lparr>tol_abs = Fin (1 / 10 ^ 6), tol_rel = Fin (1 / 10 ^ 3)\<rparr>;
          h = fst (getFirstStep rk dydxFunc xspan (st_cells st y0) tol);
          x = fst xspan;
          (y, st) = make_st st (length (st_cells st y0));
          st = write_st st y (copy_slice (st_cells st y) (st_cells st y0));
          (te, st) = make_st st (length (st_cells st y0))
      in rungeKuttaIntegrate_loop_st rk dydxFunc xspan y0 tol xs ys x y te h st)"

definition DormandPrince_st :: "DydxFunc \<Rightarrow> float64 \<times> float64 \<Rightarrow> nat \<Rightarrow> store
    \<Rightarrow> ((float64 list \<times> nat list \<times> error option) \<times> store) option" where
  "DormandPrince_st dydxFunc xspan y0 st =
     (let rk = dormandPrince in rungeKuttaIntegrate_st rk dydxFunc xspan y0 st)"

section \<open>Basic facts about the float64 operations\<close>

lemmas float_ops = plus_float64_def minus_float64_def times_float64_def divide_float64_def
  less_float64_def less_eq_float64_def

lemmas float_eval = float_ops go_min_def go_max_def go_min3_def math_Pow_def pow_zero_def

lemma flt_irrefl: "\<not> (a::float64) < a"
  by (cases a) (auto simp: float_ops)


lemma is_integer_2: "is_integer 2"
  by (simp add: is_integer_def)

lemma not_odd_integer_2: "\<not> odd_integer 2"
  by (simp add: odd_integer_def)

lemma math_Pow_2: "math_Pow t (Fin 2) = t * t"
proof (cases t)
  case (Fin a)
  consider "a = 0" | "0 < a" | "a < 0" by linarith
  then show ?thesis
  proof cases
    case 1 then show ?thesis using Fin by (simp add: float_eval)
  next
    case 2 then show ?thesis using Fin by (simp add: float_eval power2_eq_square)
  next
    case 3
    then have "\<bar>a\<bar> powr 2 = a * a" by (simp add: power2_eq_square)
    with 3 show ?thesis using Fin by (simp add: float_eval is_integer_2 not_odd_integer_2)
  qed
qed (simp_all add: float_eval not_odd_integer_2)

section \<open>The loops: unfolding and induction\<close>

lemma rungeKuttaIntegrate_unfold:
  "rungeKuttaIntegrate rk dydxFunc xspan y0 =
     (let xs = [] @ [fst xspan];
          ys = [] @ [y0];
          tol = \<lparr>tol_abs = Fin (1 / 10 ^ 6), tol_rel = Fin (1 / 10 ^ 3)\<rparr>;
          h = fst (getFirstStep rk dydxFunc xspan y0 tol);
          x = fst xspan;
          y = copy_slice (make_slice (length y0)) y0;
          te = make_slice (length y0)
      in rungeKuttaIntegrate_loop rk dydxFunc xspan y0 tol xs ys x y te h)"
  by (simp add: rungeKuttaIntegrate_def rungeKuttaIntegrate_logged_def Let_def split_def)

lemma DormandPrince_unfold:
  "DormandPrince dydxFunc xspan y0 = rungeKuttaIntegrate dormandPrince dydxFunc xspan y0"
  by (simp add: DormandPrince_def DormandPrince_logged_def rungeKuttaIntegrate_def)

lemma integrate_loop_exit:
  "\<not> x < snd xspan \<Longrightarrow>
   rungeKuttaIntegrate_loop rk f xspan y0 tol xs ys x y te h = Some (xs, ys, None)"
  by (subst rungeKuttaIntegrate_loop.simps) simp

lemma integrate_loop_induct:
  assumes step: "\<And>F rk f xspan y0 tol xs ys x y te h r.
     (\<And>rk f xspan y0 tol xs ys x y te h r.
         F rk f xspan y0 tol xs ys x y te h = Some r \<Longrightarrow> Q rk f xspan y0 tol xs ys x y te h r) \<Longrightarrow>
     (if x < snd xspan
      then let yPlusH = make_slice (length y0)
           in Option.bind (rungeKuttaStep yPlusH te rk f x y h (snd xspan) tol)
                (\<lambda>(xPlusH, newH, err, yPlusH, te).
                   case err of
                     None \<Rightarrow> F rk f xspan y0 tol (xs @ [xPlusH]) (ys @ [yPlusH])
                               xPlusH (copy_slice y yPlusH) te newH
                   | Some e \<Rightarrow> Some ([], [], Some (Wrap e [])))
      else Some (xs, ys, None)) = Some r \<Longrightarrow>
     Q rk f xspan y0 tol xs ys x y te h r"
    and run: "rungeKuttaIntegrate_loop rk f xspan y0 tol xs ys x y te h = Some r"
  shows "Q rk f xspan y0 tol xs ys x y te h r"
  using run
  apply (rule rungeKuttaIntegrate_loop.raw_induct
      [where xa = "((((((((((rk, f), xspan), y0), tol), xs), ys), x), y), te), h)" and P = Q,
        simplified, rotated])
  apply (rule step)
   apply assumption
  apply assumption
  done

lemma step_body_eq:
  "(if h < minStep then Some (NaN, NaN, Some ErrTooSmallStep, yPlusH, te)
      else
        (let (xPlusH, h) = clamp_step x h xMax;
             (yPlusH, te) = rk_yPlusH rk yPlusH te f x y h;
             scale = step_scale tol y yPlusH;
             errorNorm = step_errorNorm te h scale;
             exponent = step_exponent rk
         in if errorNorm < Fin 1 then
              (let factor = (if feq errorNorm (Fin 0) then maxFactor
                             else go_min (safety * math_Pow errorNorm exponent) maxFactor);
                   factor = (if rejected then go_min (Fin 1) factor else factor);
                   newH = h * factor
               in Some (xPlusH, newH, None, yPlusH, te))
            else
              F rk f x y xMax tol minStep yPlusH te
                (h * go_max (safety * math_Pow errorNorm exponent) minFactor) True)) =
     (if h < minStep then Some (NaN, NaN, Some ErrTooSmallStep, yPlusH, te)
      else (case step_try rk f x y xMax tol yPlusH te h of
              (xPlusH, hc, yPlusH', te', errorNorm) \<Rightarrow>
                if errorNorm < Fin 1
                then Some (xPlusH, hc * accept_factor rk errorNorm rejected, None, yPlusH', te')
                else F rk f x y xMax tol minStep yPlusH' te'
                       (hc * reject_factor rk errorNorm) True))"
proof -
  obtain xp hc where c: "clamp_step x h xMax = (xp, hc)"
    by (cases "clamp_step x h xMax")
  obtain yp' te' where r: "rk_yPlusH rk yPlusH te f x y hc = (yp', te')"
    by (cases "rk_yPlusH rk yPlusH te f x y hc")
  show ?thesis
    by (simp add: step_try_def accept_factor_def reject_factor_def Let_def c r)
qed

lemma step_loop_unfold:
  "rungeKuttaStep_loop rk f x y xMax tol minStep yPlusH te h rejected =
     (if h < minStep then Some (NaN, NaN, Some ErrTooSmallStep, yPlusH, te)
      else (case step_try rk f x y xMax tol yPlusH te h of
              (xPlusH, hc, yPlusH', te', errorNorm) \<Rightarrow>
                if errorNorm < Fin 1
                then Some (xPlusH, hc * accept_factor rk errorNorm rejected, None, yPlusH', te')
                else rungeKuttaStep_loop rk f x y xMax tol minStep yPlusH' te'
                       (hc * reject_factor rk errorNorm) True))"
  by (subst rungeKuttaStep_loop.simps) (rule step_body_eq)

lemma step_loop_induct:
  assumes step: "\<And>F rk f x y xMax tol minStep yPlusH te h rejected r.
     (\<And>rk f x y xMax tol minStep yPlusH te h rejected r.
         F rk f x y xMax tol minStep yPlusH te h rejected = Some r \<Longrightarrow>
         Q rk f x y xMax tol minStep yPlusH te h rejected r) \<Longrightarrow>
     (if h < minStep then Some (NaN, NaN, Some ErrTooSmallStep, yPlusH, te)
      else (case step_try rk f x y xMax tol yPlusH te h of
              (xPlusH, hc, yPlusH', te', errorNorm) \<Rightarrow>
                if errorNorm < Fin 1
                then Some (xPlusH, hc * accept_factor rk errorNorm rejected, None, yPlusH', te')
                else F rk f x y xMax tol minStep yPlusH' te'
                       (hc * reject_factor rk errorNorm) True)) = Some r \<Longrightarrow>
     Q rk f x y xMax tol minStep yPlusH te h rejected r"
    and run: "rungeKuttaStep_loop rk f x y xMax tol minStep yPlusH te h rejected = Some r"
  shows "Q rk f x y xMax tol minStep yPlusH te h rejected r"
  using run
  apply (rule rungeKuttaStep_loop.raw_induct
      [where xa = "((((((((((rk, f), x), y), xMax), tol), minStep), yPlusH), te), h), rejected)"
         and P = Q, simplified, rotated])
  apply (rule step)
   apply assumption
  apply (simp only: step_body_eq)
  done

section \<open>Evaluation on concrete inputs\<close>

lemmas dp_eval = dormandPrince_def dormandPrince_yPlusH_def dormandPrince_errorOrder_def
  dp_k_def dp_stage_def dp_yItp_def dp_a_def dp_b_def dp_c_def dp_e_def call_dydx_def make_slice_def

lemma minStep_of_zero: "minStep_of (Fin 0) = Fin (10 * 2 powi (- 1074))"
  by (simp add: minStep_of_def float_ops MaxFloat64_def spacing_up_def)

lemma minStep_zero_small: "10 * 2 powi (- 1074) \<le> (1 / 10 ^ 9 :: real)"
  by (simp add: power_int_minus field_simps)

text \<open>The equation \<open>y' = 0\<close> with \<open>y = 0\<close>: every stage derivative is zero.\<close>

lemma dp_zero_ode:
  "dormandPrince_yPlusH [Fin 0] [Fin 0] (\<lambda>x y. [Fin 0]) (Fin 0) [Fin 0] (Fin h) = ([Fin 0], [Fin 0])"
  by (simp add: dp_eval Let_def float_ops numeral_eq_Suc)

lemma try_zero_ode:
  "step_try dormandPrince (\<lambda>x y. [Fin 0]) (Fin 0) [Fin 0] (Fin xMax)
     \<lparr>tol_abs = Fin (1 / 10 ^ 6), tol_rel = Fin (1 / 10 ^ 3)\<rparr> [Fin 0] [Fin 0] (Fin h)
   = (if xMax < h then Fin xMax else Fin h, if xMax < h then Fin xMax else Fin h,
      [Fin 0], [Fin 0], Fin 0)"
  by (simp add: step_try_def clamp_step_def Let_def float_ops dormandPrince_def dp_zero_ode
      step_scale_def step_errorNorm_def float_eval)

section \<open>C2: the step controller\<close>

lemma inv_length_times: "Fin 1 / Fin (real n) * S = S / Fin (real n)"
  by (cases S; cases "n = 0") (simp_all add: float_ops)

lemma spec_errorNorm_eq: "spec_errorNorm te h scale = step_errorNorm te h scale"
  by (simp add: spec_errorNorm_def step_errorNorm_def Let_def math_Pow_2 inv_length_times)

lemma spec_accept_factor_eq: "spec_accept_factor (rk_errorOrder rk) en rejected = accept_factor rk en rejected"
  by (simp add: spec_accept_factor_def accept_factor_def spec_exponent_def step_exponent_def
      maxFactor_def safety_def Let_def)

lemma spec_reject_factor_eq: "spec_reject_factor (rk_errorOrder rk) en = reject_factor rk en"
  by (simp add: spec_reject_factor_def reject_factor_def spec_exponent_def step_exponent_def
      minFactor_def safety_def)

text \<open>
  C2. One pass of the step controller, with the error norm and the factors as the
  specification words them: past the guard, the pass computes
  \<open>errorNorm = sqrt((1/n) * \<Sigma> (te[m]*h/scale[m])^2)\<close> with
  \<open>scale[m] = tol.abs + tol.rel * max(|y[m]|, |yPlusH[m]|)\<close>; it accepts exactly when
  \<open>errorNorm < 1\<close>, returning \<open>h * factor\<close> as the next step size (\<open>factor\<close> clamped to at
  most 1 when a pass of this call was rejected before); otherwise it goes round again
  from the same \<open>x\<close> and \<open>y\<close> with \<open>h\<close> multiplied by
  \<open>max(safety * errorNorm^exponent, minFactor)\<close> and the rejected flag set. The call
  starts with the flag unset.
\<close>

theorem C2_step_controller:
  "rungeKuttaStep yPlusH te rk f x y h xMax tol
     = rungeKuttaStep_loop rk f x y xMax tol (minStep_of x) yPlusH te h False \<and>
   rungeKuttaStep_loop rk f x y xMax tol minStep yPlusH te h rejected =
     (if h < minStep then Some (NaN, NaN, Some ErrTooSmallStep, yPlusH, te)
      else
        (let (xPlusH, hc) = clamp_step x h xMax;
             (yPlusH', te') = rk_yPlusH rk yPlusH te f x y hc;
             scale = map (\<lambda>m. tol_abs tol + tol_rel tol * go_max (math_Abs (y ! m)) (math_Abs (yPlusH' ! m)))
                       [0..<length y];
             errorNorm = spec_errorNorm te' hc scale
         in if errorNorm < Fin 1
            then Some (xPlusH, hc * spec_accept_factor (rk_errorOrder rk) errorNorm rejected,
                       None, yPlusH', te')
            else rungeKuttaStep_loop rk f x y xMax tol minStep yPlusH' te'
                   (hc * spec_reject_factor (rk_errorOrder rk) errorNorm) True))"
proof -
  obtain xp hc where c: "clamp_step x h xMax = (xp, hc)"
    by (cases "clamp_step x h xMax")
  obtain yp' te' where r: "rk_yPlusH rk yPlusH te f x y hc = (yp', te')"
    by (cases "rk_yPlusH rk yPlusH te f x y hc")
  have t: "step_try rk f x y xMax tol yPlusH te h
      = (xp, hc, yp', te', step_errorNorm te' hc (step_scale tol y yp'))"
    by (simp add: step_try_def Let_def c r)
  have "rungeKuttaStep_loop rk f x y xMax tol minStep yPlusH te h rejected =
     (if h < minStep then Some (NaN, NaN, Some ErrTooSmallStep, yPlusH, te)
      else
        (let (xPlusH, hc) = clamp_step x h xMax;
             (yPlusH', te') = rk_yPlusH rk yPlusH te f x y hc;
             scale = map (\<lambda>m. tol_abs tol + tol_rel tol * go_max (math_Abs (y ! m)) (math_Abs (yPlusH' ! m)))
                       [0..<length y];
             errorNorm = spec_errorNorm te' hc scale
         in if errorNorm < Fin 1
            then Some (xPlusH, hc * spec_accept_factor (rk_errorOrder rk) errorNorm rejected,
                       None, yPlusH', te')
            else rungeKuttaStep_loop rk f x y xMax tol minStep yPlusH' te'
                   (hc * spec_reject_factor (rk_errorOrder rk) errorNorm) True))"
    by (subst step_loop_unfold)
      (simp add: t c r Let_def spec_errorNorm_eq spec_accept_factor_eq spec_reject_factor_eq
        step_scale_def)
  then show ?thesis
    by (simp add: rungeKuttaStep_def)
qed

theorem C2_step_controller_witness:
  "rungeKuttaStep_loop dormandPrince (\<lambda>x y. [Fin 0]) (Fin 0) [Fin 0] (Fin 2)
     \<lparr>tol_abs = Fin (1 / 10 ^ 6), tol_rel = Fin (1 / 10 ^ 3)\<rparr> (minStep_of (Fin 0))
     [Fin 0] [Fin 0] (Fin 1) False
   = Some (Fin 1, Fin 10, None, [Fin 0], [Fin 0])"
proof -
  have ms: "\<not> Fin 1 < minStep_of (Fin 0)"
    using minStep_zero_small by (simp add: minStep_of_zero float_ops)
  have c: "clamp_step (Fin 0) (Fin 1) (Fin 2) = (Fin 1, Fin 1)"
    by (simp add: clamp_step_def float_ops Let_def)
  have r: "rk_yPlusH dormandPrince [Fin 0] [Fin 0] (\<lambda>x y. [Fin 0]) (Fin 0) [Fin 0] (Fin 1)
      = ([Fin 0], [Fin 0])"
    by (simp add: dormandPrince_def dp_zero_ode)
  have en: "spec_errorNorm [Fin 0] (Fin 1) [Fin (1 / 10 ^ 6) + Fin (1 / 10 ^ 3) * go_max (Fin 0) (Fin 0)]
      = Fin 0"
    by (simp add: spec_errorNorm_def float_eval)
  have fac: "Fin 1 * spec_accept_factor 4 (Fin 0) False = Fin 10"
    by (simp add: spec_accept_factor_def float_ops)
  have lt: "Fin 0 < Fin 1"
    by (simp add: float_ops)
  have order: "rk_errorOrder dormandPrince = 4"
    by (simp add: dormandPrince_def dormandPrince_errorOrder_def)
  show ?thesis
    using C2_step_controller[where rk = dormandPrince and f = "\<lambda>x y. [Fin 0]" and x = "Fin 0"
        and y = "[Fin 0]" and xMax = "Fin 2"
        and tol = "\<lparr>tol_abs = Fin (1 / 10 ^ 6), tol_rel = Fin (1 / 10 ^ 3)\<rparr>"
        and minStep = "minStep_of (Fin 0)" and yPlusH = "[Fin 0]" and te = "[Fin 0]"
        and h = "Fin 1" and rejected = False]
    by (simp only: ms c r en fac lt order if_False if_True Let_def prod.case list.size
        tolerance.simps upt_rec[of 0] nth_Cons_0 list.map math_Abs.simps abs_zero
        One_nat_def add_0 less_Suc0 lessI simp_thms upt_conv_Nil)
qed

section \<open>C3: the too-small step\<close>

text \<open>
  The candidate step sizes of one call of \<open>rungeKuttaStep\<close> are the third components of
  the states \<open>(step_retry ^^ k) (yPlusH, te, h)\<close>: the state in which the loop starts its
  pass number \<open>k\<close>, when the passes before it were rejected.
\<close>

lemma step_error_imp:
  assumes "rungeKuttaStep_loop rk f x y xMax tol minStep yPlusH te h rejected = Some r"
  shows "fst (snd (snd r)) \<noteq> None \<longrightarrow>
     fst (snd (snd r)) = Some ErrTooSmallStep \<and> fst r = NaN \<and> fst (snd r) = NaN \<and>
     (\<exists>k. snd (snd ((step_retry rk f x y xMax tol ^^ k) (yPlusH, te, h))) < minStep \<and>
          (\<forall>i<k. step_rejects rk f x y xMax tol minStep
                    ((step_retry rk f x y xMax tol ^^ i) (yPlusH, te, h))))"
proof (rule step_loop_induct[where Q = "\<lambda>rk f x y xMax tol minStep yPlusH te h rejected r.
     fst (snd (snd r)) \<noteq> None \<longrightarrow>
     fst (snd (snd r)) = Some ErrTooSmallStep \<and> fst r = NaN \<and> fst (snd r) = NaN \<and>
     (\<exists>k. snd (snd ((step_retry rk f x y xMax tol ^^ k) (yPlusH, te, h))) < minStep \<and>
          (\<forall>i<k. step_rejects rk f x y xMax tol minStep
                    ((step_retry rk f x y xMax tol ^^ i) (yPlusH, te, h))))", OF _ assms], goal_cases)
  case (1 F rk f x y xMax tol minStep yPlusH te h rejected r)
  show ?case
  proof (cases "h < minStep")
    case True
    with 1(2) have r: "r = (NaN, NaN, Some ErrTooSmallStep, yPlusH, te)" by simp
    have "\<exists>k. snd (snd ((step_retry rk f x y xMax tol ^^ k) (yPlusH, te, h))) < minStep \<and>
          (\<forall>i<k. step_rejects rk f x y xMax tol minStep
                    ((step_retry rk f x y xMax tol ^^ i) (yPlusH, te, h)))"
      using True by (intro exI[of _ 0]) simp
    then show ?thesis using r by simp
  next
    case False
    obtain xp hc yp' te' en where t: "step_try rk f x y xMax tol yPlusH te h = (xp, hc, yp', te', en)"
      by (cases "step_try rk f x y xMax tol yPlusH te h")
    show ?thesis
    proof (cases "en < Fin 1")
      case True
      with 1(2) False t show ?thesis by auto
    next
      case en: False
      with 1(2) False t have F: "F rk f x y xMax tol minStep yp' te' (hc * reject_factor rk en) True = Some r"
        by simp
      have retry: "step_retry rk f x y xMax tol (yPlusH, te, h) = (yp', te', hc * reject_factor rk en)"
        by (simp add: step_retry_def t)
      have rej: "step_rejects rk f x y xMax tol minStep (yPlusH, te, h)"
        using False en by (simp add: step_rejects_def t)
      show ?thesis
      proof
        assume e: "fst (snd (snd r)) \<noteq> None"
        from 1(1)[OF F] e obtain k where
          k: "fst (snd (snd r)) = Some ErrTooSmallStep" "fst r = NaN" "fst (snd r) = NaN"
            "snd (snd ((step_retry rk f x y xMax tol ^^ k) (yp', te', hc * reject_factor rk en))) < minStep"
            "\<forall>i<k. step_rejects rk f x y xMax tol minStep
                    ((step_retry rk f x y xMax tol ^^ i) (yp', te', hc * reject_factor rk en))"
          by blast
        have "snd (snd ((step_retry rk f x y xMax tol ^^ Suc k) (yPlusH, te, h))) < minStep"
          using k(4) by (simp add: funpow_swap1 retry)
        moreover have "\<forall>i<Suc k. step_rejects rk f x y xMax tol minStep
                    ((step_retry rk f x y xMax tol ^^ i) (yPlusH, te, h))"
        proof (intro allI impI)
          fix i assume "i < Suc k"
          show "step_rejects rk f x y xMax tol minStep
                    ((step_retry rk f x y xMax tol ^^ i) (yPlusH, te, h))"
          proof (cases i)
            case 0 then show ?thesis using rej by simp
          next
            case (Suc j)
            with \<open>i < Suc k\<close> have "j < k" by simp
            with k(5) show ?thesis by (simp add: Suc funpow_swap1 retry)
          qed
        qed
        ultimately show "fst (snd (snd r)) = Some ErrTooSmallStep \<and> fst r = NaN \<and> fst (snd r) = NaN \<and>
     (\<exists>k. snd (snd ((step_retry rk f x y xMax tol ^^ k) (yPlusH, te, h))) < minStep \<and>
          (\<forall>i<k. step_rejects rk f x y xMax tol minStep
                    ((step_retry rk f x y xMax tol ^^ i) (yPlusH, te, h))))"
          using k(1,2,3) by blast
      qed
    qed
  qed
qed

lemma step_error_if:
  "snd (snd ((step_retry rk f x y xMax tol ^^ k) (yPlusH, te, h))) < minStep \<Longrightarrow>
   \<forall>i<k. step_rejects rk f x y xMax tol minStep
                    ((step_retry rk f x y xMax tol ^^ i) (yPlusH, te, h)) \<Longrightarrow>
   \<exists>yp t. rungeKuttaStep_loop rk f x y xMax tol minStep yPlusH te h rejected =
      Some (NaN, NaN, Some ErrTooSmallStep, yp, t)"
proof (induction k arbitrary: yPlusH te h rejected)
  case 0
  then show ?case by (subst step_loop_unfold) simp
next
  case (Suc k)
  obtain xp hc yp' te' en where t: "step_try rk f x y xMax tol yPlusH te h = (xp, hc, yp', te', en)"
    by (cases "step_try rk f x y xMax tol yPlusH te h")
  have retry: "step_retry rk f x y xMax tol (yPlusH, te, h) = (yp', te', hc * reject_factor rk en)"
    by (simp add: step_retry_def t)
  from Suc.prems(2) have "step_rejects rk f x y xMax tol minStep ((step_retry rk f x y xMax tol ^^ 0) (yPlusH, te, h))"
    by blast
  then have rej: "\<not> h < minStep" "\<not> en < Fin 1"
    by (simp_all add: step_rejects_def t)
  have a: "snd (snd ((step_retry rk f x y xMax tol ^^ k) (yp', te', hc * reject_factor rk en))) < minStep"
    using Suc.prems(1) by (simp add: funpow_swap1 retry)
  have b: "\<forall>i<k. step_rejects rk f x y xMax tol minStep
                    ((step_retry rk f x y xMax tol ^^ i) (yp', te', hc * reject_factor rk en))"
  proof (intro allI impI)
    fix i assume "i < k"
    then have "Suc i < Suc k" by simp
    with Suc.prems(2) have "step_rejects rk f x y xMax tol minStep
                    ((step_retry rk f x y xMax tol ^^ Suc i) (yPlusH, te, h))" by blast
    then show "step_rejects rk f x y xMax tol minStep
                    ((step_retry rk f x y xMax tol ^^ i) (yp', te', hc * reject_factor rk en))"
      by (simp add: funpow_swap1 retry)
  qed
  from Suc.IH[OF a b, of True] show ?case
    by (subst step_loop_unfold) (simp add: rej t)
qed

lemma integrate_error_imp:
  assumes "rungeKuttaIntegrate_loop rk f xspan y0 tol xs ys x y te h = Some r"
  shows "snd (snd r) \<noteq> None \<longrightarrow> fst r = [] \<and> fst (snd r) = [] \<and> snd (snd r) = Some (Wrap ErrTooSmallStep [])"
proof (rule integrate_loop_induct[where Q = "\<lambda>rk f xspan y0 tol xs ys x y te h r.
    snd (snd r) \<noteq> None \<longrightarrow> fst r = [] \<and> fst (snd r) = [] \<and> snd (snd r) = Some (Wrap ErrTooSmallStep [])",
    OF _ assms], goal_cases)
  case (1 F rk f xspan y0 tol xs ys x y te h r)
  show ?case
  proof (cases "x < snd xspan")
    case False
    with 1(2) show ?thesis by auto
  next
    case True
    with 1(2) obtain s where s: "rungeKuttaStep (make_slice (length y0)) te rk f x y h (snd xspan) tol = Some s"
      by (auto simp: Let_def bind_eq_Some_conv)
    obtain xp nh err yp t where s': "s = (xp, nh, err, yp, t)" by (cases s)
    show ?thesis
    proof (cases err)
      case None
      with 1(2) True s s' have "F rk f xspan y0 tol (xs @ [xp]) (ys @ [yp]) xp (copy_slice y yp) t nh = Some r"
        by (simp add: Let_def)
      from 1(1)[OF this] show ?thesis .
    next
      case (Some e)
      with 1(2) True s s' have r: "r = ([], [], Some (Wrap e []))" by (auto simp add: Let_def)
      from s s' Some have "rungeKuttaStep_loop rk f x y (snd xspan) tol (minStep_of x) (make_slice (length y0)) te h False = Some (xp, nh, Some e, yp, t)"
        by (simp add: rungeKuttaStep_def)
      from step_error_imp[OF this] have "e = ErrTooSmallStep" by simp
      with r show ?thesis by simp
    qed
  qed
qed

lemma step_error_iff:
  "(\<exists>xp nh e yp t. rungeKuttaStep yPlusH te rk f x y h xMax tol = Some (xp, nh, Some e, yp, t)) \<longleftrightarrow>
   (\<exists>k. snd (snd ((step_retry rk f x y xMax tol ^^ k) (yPlusH, te, h))) < minStep_of x \<and>
        (\<forall>i<k. step_rejects rk f x y xMax tol (minStep_of x)
                 ((step_retry rk f x y xMax tol ^^ i) (yPlusH, te, h))))"
proof
  assume "\<exists>xp nh e yp t. rungeKuttaStep yPlusH te rk f x y h xMax tol = Some (xp, nh, Some e, yp, t)"
  then obtain xp nh e yp t where
    "rungeKuttaStep_loop rk f x y xMax tol (minStep_of x) yPlusH te h False = Some (xp, nh, Some e, yp, t)"
    by (auto simp: rungeKuttaStep_def)
  from step_error_imp[OF this]
  show "\<exists>k. snd (snd ((step_retry rk f x y xMax tol ^^ k) (yPlusH, te, h))) < minStep_of x \<and>
        (\<forall>i<k. step_rejects rk f x y xMax tol (minStep_of x)
                 ((step_retry rk f x y xMax tol ^^ i) (yPlusH, te, h)))"
    by simp
next
  assume "\<exists>k. snd (snd ((step_retry rk f x y xMax tol ^^ k) (yPlusH, te, h))) < minStep_of x \<and>
        (\<forall>i<k. step_rejects rk f x y xMax tol (minStep_of x)
                 ((step_retry rk f x y xMax tol ^^ i) (yPlusH, te, h)))"
  then obtain k where
    "snd (snd ((step_retry rk f x y xMax tol ^^ k) (yPlusH, te, h))) < minStep_of x"
    "\<forall>i<k. step_rejects rk f x y xMax tol (minStep_of x)
                 ((step_retry rk f x y xMax tol ^^ i) (yPlusH, te, h))"
    by blast
  from step_error_if[OF this, of False]
  show "\<exists>xp nh e yp t. rungeKuttaStep yPlusH te rk f x y h xMax tol = Some (xp, nh, Some e, yp, t)"
    by (auto simp: rungeKuttaStep_def)
qed

lemma step_error_kind:
  "rungeKuttaStep yPlusH te rk f x y h xMax tol = Some (xp, nh, Some e, yp, t) \<Longrightarrow>
   e = ErrTooSmallStep \<and> xp = NaN \<and> nh = NaN"
  using step_error_imp[of rk f x y xMax tol "minStep_of x" yPlusH te h False "(xp, nh, Some e, yp, t)"]
  by (simp add: rungeKuttaStep_def)

lemma integrate_loop_error:
  "x < snd xspan \<Longrightarrow>
   rungeKuttaStep (make_slice (length y0)) te rk f x y h (snd xspan) tol = Some (xp, nh, Some e, yp, t) \<Longrightarrow>
   rungeKuttaIntegrate_loop rk f xspan y0 tol xs ys x y te h = Some ([], [], Some (Wrap e []))"
  by (subst rungeKuttaIntegrate_loop.simps) (simp add: Let_def)

lemma integrate_error:
  "rungeKuttaIntegrate rk f xspan y0 = Some (xs, ys, Some e) \<Longrightarrow>
   xs = [] \<and> ys = [] \<and> e = Wrap ErrTooSmallStep []"
  unfolding rungeKuttaIntegrate_unfold Let_def
  by (drule integrate_error_imp) simp

text \<open>
  C3. A call of \<open>rungeKuttaStep\<close> fails exactly when a candidate step size \<open>h\<close> is
  below \<open>10 * |Nextafter(x, +Inf) - x|\<close>; the error is then \<open>ErrTooSmallStep\<close>. On that
  failure the integration returns no partial trajectory: \<open>xs\<close> and \<open>ys\<close> are nil and
  only the (wrapped) error is returned.
\<close>

theorem C3_too_small_step:
  "minStep_of x = Fin 10 * math_Abs (Nextafter_Inf x - x) \<and>
   ((\<exists>xp nh e yp t. rungeKuttaStep yPlusH te rk f x y h xMax tol = Some (xp, nh, Some e, yp, t)) \<longleftrightarrow>
    (\<exists>k. snd (snd ((step_retry rk f x y xMax tol ^^ k) (yPlusH, te, h))) < minStep_of x \<and>
         (\<forall>i<k. step_rejects rk f x y xMax tol (minStep_of x)
                  ((step_retry rk f x y xMax tol ^^ i) (yPlusH, te, h))))) \<and>
   (rungeKuttaStep yPlusH te rk f x y h xMax tol = Some (xp, nh, Some e, yp, t) \<longrightarrow>
      e = ErrTooSmallStep) \<and>
   (x < snd xspan \<and>
    rungeKuttaStep (make_slice (length y0)) te rk f x y h (snd xspan) tol'
      = Some (xp, nh, Some e, yp, t) \<longrightarrow>
    rungeKuttaIntegrate_loop rk f xspan y0 tol' xs ys x y te h = Some ([], [], Some (Wrap e []))) \<and>
   (rungeKuttaIntegrate rk f xspan' y0' = Some (xs', ys', Some e') \<longrightarrow>
      xs' = [] \<and> ys' = [] \<and> e' = Wrap ErrTooSmallStep [])"
  using step_error_iff[of yPlusH te rk f x y h xMax tol]
    step_error_kind[of yPlusH te rk f x y h xMax tol xp nh e yp t]
    integrate_loop_error[of x xspan y0 te rk f y h tol' xp nh e yp t xs ys]
    integrate_error[of rk f xspan' y0' xs' ys' e']
  by (simp add: minStep_of_def)

lemma C3_first_step:
  "fst (getFirstStep dormandPrince (\<lambda>x y. [Fin 0]) (NInf, Fin 0) [Fin 0]
     \<lparr>tol_abs = Fin (1 / 10 ^ 6), tol_rel = Fin (1 / 10 ^ 3)\<rparr>) = Fin (1 / 10 ^ 6)"
  by (simp add: getFirstStep_def call_logged_def call_dydx_def make_slice_def rms_sum_def
      Let_def float_eval)

lemma minStep_of_NInf: "minStep_of NInf = PInf"
  by (simp add: minStep_of_def float_ops)

lemma C3_failing_run:
  "DormandPrince (\<lambda>x y. [Fin 0]) (NInf, Fin 0) [Fin 0] = Some ([], [], Some (Wrap ErrTooSmallStep []))"
  unfolding DormandPrince_unfold rungeKuttaIntegrate_unfold Let_def fst_conv C3_first_step
  apply (subst rungeKuttaIntegrate_loop.simps)
  apply (simp add: float_ops rungeKuttaStep_def minStep_of_NInf)
  apply (subst step_loop_unfold)
  apply (simp add: float_ops)
  done

lemma C3_failing_step:
  "rungeKuttaStep [Fin 0] [Fin 0] dormandPrince (\<lambda>x y. [Fin 0]) NInf [Fin 0] (Fin (1 / 10 ^ 6)) (Fin 0)
     \<lparr>tol_abs = Fin (1 / 10 ^ 6), tol_rel = Fin (1 / 10 ^ 3)\<rparr>
   = Some (NaN, NaN, Some ErrTooSmallStep, [Fin 0], [Fin 0])"
  unfolding rungeKuttaStep_def Let_def minStep_of_NInf
  by (subst step_loop_unfold) (simp add: float_ops)

theorem C3_too_small_step_witness:
  "rungeKuttaStep [Fin 0] [Fin 0] dormandPrince (\<lambda>x y. [Fin 0]) NInf [Fin 0] (Fin (1 / 10 ^ 6)) (Fin 0)
     \<lparr>tol_abs = Fin (1 / 10 ^ 6), tol_rel = Fin (1 / 10 ^ 3)\<rparr>
   = Some (NaN, NaN, Some ErrTooSmallStep, [Fin 0], [Fin 0]) \<and>
   (\<exists>k. snd (snd ((step_retry dormandPrince (\<lambda>x y. [Fin 0]) NInf [Fin 0] (Fin 0)
                     \<lparr>tol_abs = Fin (1 / 10 ^ 6), tol_rel = Fin (1 / 10 ^ 3)\<rparr> ^^ k)
                   ([Fin 0], [Fin 0], Fin (1 / 10 ^ 6)))) < minStep_of NInf) \<and>
   NInf < snd (NInf, Fin 0) \<and>
   rungeKuttaIntegrate_loop dormandPrince (\<lambda>x y. [Fin 0]) (NInf, Fin 0) [Fin 0]
     \<lparr>tol_abs = Fin (1 / 10 ^ 6), tol_rel = Fin (1 / 10 ^ 3)\<rparr> [NInf] [[Fin 0]] NInf [Fin 0] [Fin 0]
     (Fin (1 / 10 ^ 6)) = Some ([], [], Some (Wrap ErrTooSmallStep [])) \<and>
   rungeKuttaIntegrate dormandPrince (\<lambda>x y. [Fin 0]) (NInf, Fin 0) [Fin 0]
     = Some ([], [], Some (Wrap ErrTooSmallStep []))"
proof -
  let ?f = "\<lambda>(x::float64) (y::float64 list). [Fin 0]"
  let ?tol = "\<lparr>tol_abs = Fin (1 / 10 ^ 6), tol_rel = Fin (1 / 10 ^ 3)\<rparr>"
  note inst = C3_too_small_step[where x = NInf and yPlusH = "[Fin 0]" and te = "[Fin 0]"
      and rk = dormandPrince and f = ?f and y = "[Fin 0]" and h = "Fin (1 / 10 ^ 6)"
      and xMax = "Fin 0" and tol = ?tol and xp = NaN and nh = NaN and e = ErrTooSmallStep
      and yp = "[Fin 0]" and t = "[Fin 0]" and xspan = "(NInf, Fin 0)" and ?y0.0 = "[Fin 0]"
      and tol' = ?tol and xs = "[NInf]" and ys = "[[Fin 0]]" and xspan' = "(NInf, Fin 0)"
      and y0' = "[Fin 0]" and xs' = "[]" and ys' = "[]" and e' = "Wrap ErrTooSmallStep []"]
  have lt: "NInf < snd (NInf, Fin 0)" by (simp add: float_ops)
  have ex: "\<exists>xp nh e yp t. rungeKuttaStep [Fin 0] [Fin 0] dormandPrince ?f NInf [Fin 0]
      (Fin (1 / 10 ^ 6)) (Fin 0) ?tol = Some (xp, nh, Some e, yp, t)"
    using C3_failing_step by blast
  have step': "rungeKuttaStep (make_slice (length [Fin 0])) [Fin 0] dormandPrince ?f NInf [Fin 0]
      (Fin (1 / 10 ^ 6)) (snd (NInf, Fin 0)) ?tol = Some (NaN, NaN, Some ErrTooSmallStep, [Fin 0], [Fin 0])"
    using C3_failing_step by (simp add: make_slice_def)
  from inst ex have cand: "\<exists>k. snd (snd ((step_retry dormandPrince ?f NInf [Fin 0] (Fin 0) ?tol ^^ k)
                   ([Fin 0], [Fin 0], Fin (1 / 10 ^ 6)))) < minStep_of NInf"
    by blast
  from inst lt step' have loop: "rungeKuttaIntegrate_loop dormandPrince ?f (NInf, Fin 0) [Fin 0]
     ?tol [NInf] [[Fin 0]] NInf [Fin 0] [Fin 0] (Fin (1 / 10 ^ 6)) = Some ([], [], Some (Wrap ErrTooSmallStep []))"
    by blast
  show ?thesis
    using C3_failing_step cand lt loop C3_failing_run[unfolded DormandPrince_unfold] by blast
qed

section \<open>C4: a derivative that returns NaN\<close>

lemma fadd_NaN_right [simp]: "fadd a NaN = NaN"
  by (cases a) simp_all

lemma fmul_NaN_right [simp]: "fmul a NaN = NaN"
  by (cases a) simp_all

lemma fdiv_NaN_right [simp]: "fdiv a NaN = NaN"
  by (cases a) simp_all

lemma fle_NaN_left: "\<not> (NaN \<le> (a::float64))"
  by (simp add: float_ops)

lemma go_max_NaN_left: "go_max NaN a = NaN"
  by (simp add: go_max_def)

lemma go_min_NaN_right: "go_min a NaN = NaN"
  by (simp add: go_min_def)

lemma go_min_NaN_left: "go_min NaN a = NaN"
  by (simp add: go_min_def)

lemma div_NaN_right: "a / NaN = NaN"
  by (simp add: float_ops)

lemma math_Pow_NaN_left: "y \<noteq> Fin 0 \<Longrightarrow> math_Pow NaN y = NaN"
  by (simp add: math_Pow_def)

lemma fold_add_NaN:
  "xs \<noteq> [] \<Longrightarrow> (\<And>i. g i = NaN) \<Longrightarrow> fold (\<lambda>i acc. acc + g i) xs a = NaN"
  by (induction xs arbitrary: a rule: rev_induct) (simp_all add: float_ops)

lemma step_errorNorm_NaN: "te \<noteq> [] \<Longrightarrow> step_errorNorm te NaN scale = NaN"
proof -
  assume "te \<noteq> []"
  then have "[0..<length te] \<noteq> []" by simp
  then have "fold (\<lambda>i acc. acc + math_Pow (te ! i * NaN / scale ! i) (Fin 2)) [0..<length te] (Fin 0) = NaN"
    by (rule fold_add_NaN) (simp add: math_Pow_2 float_ops)
  then show ?thesis by (simp add: step_errorNorm_def float_ops)
qed

lemma dormandPrince_yPlusH_length:
  "dormandPrince_yPlusH yPlusH te f x y h = (yp, t) \<Longrightarrow>
   length yp = length yPlusH \<and> length t = length te"
  by (auto simp: dormandPrince_yPlusH_def Let_def)

lemma clamp_step_NaN: "clamp_step x NaN xMax = (NaN, NaN)"
  by (cases xMax) (simp_all add: clamp_step_def Let_def float_ops)

lemma reject_factor_NaN: "reject_factor rk NaN = NaN"
  by (simp add: reject_factor_def go_max_def float_ops math_Pow_def safety_def step_exponent_def)

lemma step_try_NaN:
  assumes "te \<noteq> []"
  shows "\<exists>yp t. step_try dormandPrince f x y xMax tol yPlusH te NaN = (NaN, NaN, yp, t, NaN) \<and> t \<noteq> []"
proof -
  obtain yp t where r: "dormandPrince_yPlusH yPlusH te f x y NaN = (yp, t)"
    by (cases "dormandPrince_yPlusH yPlusH te f x y NaN")
  with assms have t: "t \<noteq> []" using dormandPrince_yPlusH_length[OF r] by auto
  show ?thesis
    by (simp add: step_try_def clamp_step_NaN dormandPrince_def r Let_def step_errorNorm_NaN[OF t] t)
qed

text \<open>Once the step size is NaN the guard \<open>h < minStep\<close> is false, the error norm is NaN,
  the pass is rejected and the next step size is NaN again: the loop returns nothing.\<close>

lemma step_loop_NaN_some:
  assumes "rungeKuttaStep_loop rk f x y xMax tol minStep yPlusH te h rejected = Some r"
  shows "\<not> (rk = dormandPrince \<and> h = NaN \<and> te \<noteq> [])"
proof (rule step_loop_induct[where Q = "\<lambda>rk f x y xMax tol minStep yPlusH te h rejected r.
     \<not> (rk = dormandPrince \<and> h = NaN \<and> te \<noteq> [])", OF _ assms], goal_cases)
  case (1 F rk f x y xMax tol minStep yPlusH te h rejected r)
  show ?case
  proof
    assume a: "rk = dormandPrince \<and> h = NaN \<and> te \<noteq> []"
    then obtain yp t where
      t: "step_try dormandPrince f x y xMax tol yPlusH te NaN = (NaN, NaN, yp, t, NaN)" "t \<noteq> []"
      using step_try_NaN[of te f x y xMax tol yPlusH] by blast
    from 1(2) a t have "F dormandPrince f x y xMax tol minStep yp t NaN True = Some r"
      by (simp add: float_ops reject_factor_NaN)
    from 1(1)[OF this] t(2) show False by simp
  qed
qed

lemma step_loop_NaN_diverges:
  "te \<noteq> [] \<Longrightarrow>
   rungeKuttaStep_loop dormandPrince f x y xMax tol minStep yPlusH te NaN rejected = None"
  using step_loop_NaN_some[of dormandPrince f x y xMax tol minStep yPlusH te NaN rejected]
  by (cases "rungeKuttaStep_loop dormandPrince f x y xMax tol minStep yPlusH te NaN rejected") auto

lemma getFirstStep_NaN:
  assumes d1: "math_Sqrt (rms_sum (\<lambda>i. call_dydx f (make_slice (length y0)) (fst xspan) y0 ! i
                 / map (\<lambda>y. tol_abs tol + math_Abs y * tol_rel tol) y0 ! i) (length y0)
               / Fin (real (length y0))) = NaN"
    and order: "rk_errorOrder rk \<noteq> - 1"
  shows "fst (getFirstStep rk f xspan y0 tol) = NaN"
proof -
  have e: "Fin 1 / (Fin (real_of_int (rk_errorOrder rk)) + Fin 1) \<noteq> Fin 0"
    using order by (simp add: float_ops)
  show ?thesis
    unfolding getFirstStep_def call_logged_def Let_def prod.case length_map d1 fst_conv
    by (simp only: fle_NaN_left go_max_NaN_left div_NaN_right math_Pow_NaN_left[OF e]
        go_min3_def go_min_NaN_right go_min_NaN_left simp_thms if_False)
qed

lemma dp_NaN_ode:
  "dormandPrince_yPlusH [Fin 0] [Fin 0] (\<lambda>x y. [NaN]) (Fin 0) [Fin 0] (Fin h) = ([NaN], [NaN])"
  by (simp add: dp_eval Let_def float_ops numeral_eq_Suc)

lemma C4_first_step:
  "fst (getFirstStep dormandPrince (\<lambda>x y. [NaN]) (Fin 0, Fin 1) [Fin 0]
     \<lparr>tol_abs = Fin (1 / 10 ^ 6), tol_rel = Fin (1 / 10 ^ 3)\<rparr>) = NaN"
  by (rule getFirstStep_NaN)
    (simp_all add: call_dydx_def make_slice_def rms_sum_def float_ops math_Pow_def
      dormandPrince_def dormandPrince_errorOrder_def)

lemma C4_run: "DormandPrince (\<lambda>x y. [NaN]) (Fin 0, Fin 1) [Fin 0] = None"
  unfolding DormandPrince_unfold rungeKuttaIntegrate_unfold Let_def fst_conv C4_first_step
  apply (subst rungeKuttaIntegrate_loop.simps)
  apply (simp add: float_ops rungeKuttaStep_def make_slice_def step_loop_NaN_diverges)
  done

lemma C4_step:
  "rungeKuttaStep [Fin 0] [Fin 0] dormandPrince (\<lambda>x y. [NaN]) (Fin 0) [Fin 0] (Fin 1) (Fin 2)
     \<lparr>tol_abs = Fin (1 / 10 ^ 6), tol_rel = Fin (1 / 10 ^ 3)\<rparr> = None"
proof -
  have t: "step_try dormandPrince (\<lambda>x y. [NaN]) (Fin 0) [Fin 0] (Fin 2)
     \<lparr>tol_abs = Fin (1 / 10 ^ 6), tol_rel = Fin (1 / 10 ^ 3)\<rparr> [Fin 0] [Fin 0] (Fin 1)
     = (Fin 1, Fin 1, [NaN], [NaN], NaN)"
    by (simp add: step_try_def clamp_step_def Let_def float_ops dormandPrince_def dp_NaN_ode
        step_scale_def step_errorNorm_def float_eval)
  show ?thesis
    unfolding rungeKuttaStep_def Let_def minStep_of_zero
    apply (subst step_loop_unfold)
    unfolding t
    using minStep_zero_small
    apply (simp add: float_ops reject_factor_NaN step_loop_NaN_diverges)
    done
qed

text \<open>
  C4 says that every call of the step routine accepts a step or signals the too-small
  step, also when the derivative function returns NaN. The code does neither: with a
  derivative that is NaN the error norm is NaN, the pass is rejected, and the new step
  size \<open>h * max(safety * Pow(NaN, exponent), minFactor)\<close> is NaN, which the guard
  \<open>h < minStep\<close> never catches. The step from \<open>x = 0\<close>, \<open>y = [0]\<close> with \<open>h = 1\<close> never
  returns, and neither does the integration over \<open>[0, 1]\<close>.
\<close>

theorem C4_nan_derivative_never_returns:
  "rungeKuttaStep [Fin 0] [Fin 0] dormandPrince (\<lambda>x y. [NaN]) (Fin 0) [Fin 0] (Fin 1) (Fin 2)
     \<lparr>tol_abs = Fin (1 / 10 ^ 6), tol_rel = Fin (1 / 10 ^ 3)\<rparr> = None \<and>
   DormandPrince (\<lambda>x y. [NaN]) (Fin 0, Fin 1) [Fin 0] = None"
  using C4_step C4_run by simp

section \<open>C1: the trajectory of a successful integration\<close>


















lemma C1_first_step:
  "fst (getFirstStep dormandPrince (\<lambda>x y. [Fin 0]) (Fin 0, Fin (1 / 10 ^ 6)) [Fin 0]
     \<lparr>tol_abs = Fin (1 / 10 ^ 6), tol_rel = Fin (1 / 10 ^ 3)\<rparr>) = Fin (1 / 10 ^ 6)"
  by (simp add: getFirstStep_def call_logged_def call_dydx_def make_slice_def rms_sum_def
      Let_def float_eval)

lemma C1_step:
  "rungeKuttaStep [Fin 0] [Fin 0] dormandPrince (\<lambda>x y. [Fin 0]) (Fin 0) [Fin 0] (Fin (1 / 10 ^ 6))
     (Fin (1 / 10 ^ 6)) \<lparr>tol_abs = Fin (1 / 10 ^ 6), tol_rel = Fin (1 / 10 ^ 3)\<rparr>
   = Some (Fin (1 / 10 ^ 6), Fin (1 / 10 ^ 5), None, [Fin 0], [Fin 0])"
  unfolding rungeKuttaStep_def Let_def minStep_of_zero
  apply (subst step_loop_unfold)
  unfolding try_zero_ode
  using minStep_zero_small
  apply (simp add: float_ops accept_factor_def maxFactor_def)
  done




section \<open>C6: the step size proposed after a clamped step\<close>

lemma clamped_try:
  assumes "xMax < x + h" and "step_try rk f x y xMax tol yPlusH te h = (xp, hc, yp, t, en)"
  shows "xp = xMax \<and> hc = xMax - x \<and> en = step_errorNorm t (xMax - x) (step_scale tol y yp)"
proof -
  obtain yp' t' where r: "rk_yPlusH rk yPlusH te f x y (xMax - x) = (yp', t')"
    by (cases "rk_yPlusH rk yPlusH te f x y (xMax - x)")
  from assms show ?thesis
    by (auto simp add: step_try_def clamp_step_def Let_def r)
qed

text \<open>
  C6, as the code has it. When an accepted step would overshoot \<open>xMax\<close> and is clamped,
  \<open>h\<close> is overwritten by \<open>xMax - x\<close>, the error norm is the one of the clamped step, and
  the step size proposed for the next step is the clamped \<open>h\<close> times the factor. The
  proposal is not used: the step ends at \<open>xMax\<close>, where the driver's loop ends whatever
  the next step size is.
\<close>

theorem C6_clamped_next_step:
  "xMax < x + h \<and> \<not> h < minStep \<and>
   step_try rk f x y xMax tol yPlusH te h = (xp, hc, yp, t, en) \<and> en < Fin 1 \<longrightarrow>
   xp = xMax \<and> hc = xMax - x \<and>
   en = step_errorNorm t (xMax - x) (step_scale tol y yp) \<and>
   rungeKuttaStep_loop rk f x y xMax tol minStep yPlusH te h rejected
     = Some (xMax, (xMax - x) * accept_factor rk en rejected, None, yp, t) \<and>
   rungeKuttaIntegrate_loop rk f (x0, xMax) y0 tol xs ys xMax y' te' newH = Some (xs, ys, None)"
proof (intro impI)
  assume a: "xMax < x + h \<and> \<not> h < minStep \<and>
   step_try rk f x y xMax tol yPlusH te h = (xp, hc, yp, t, en) \<and> en < Fin 1"
  then have c: "xp = xMax \<and> hc = xMax - x \<and>
      en = step_errorNorm t (xMax - x) (step_scale tol y yp)"
    using clamped_try[of xMax x h rk f y tol yPlusH te xp hc yp t en] by simp
  have l: "rungeKuttaStep_loop rk f x y xMax tol minStep yPlusH te h rejected
     = Some (xMax, (xMax - x) * accept_factor rk en rejected, None, yp, t)"
    using a c by (subst step_loop_unfold) simp
  have d: "rungeKuttaIntegrate_loop rk f (x0, xMax) y0 tol xs ys xMax y' te' newH = Some (xs, ys, None)"
    by (rule integrate_loop_exit) (simp add: flt_irrefl)
  from c l d show "xp = xMax \<and> hc = xMax - x \<and>
   en = step_errorNorm t (xMax - x) (step_scale tol y yp) \<and>
   rungeKuttaStep_loop rk f x y xMax tol minStep yPlusH te h rejected
     = Some (xMax, (xMax - x) * accept_factor rk en rejected, None, yp, t) \<and>
   rungeKuttaIntegrate_loop rk f (x0, xMax) y0 tol xs ys xMax y' te' newH = Some (xs, ys, None)"
    by simp
qed

theorem C6_clamped_next_step_witness:
  "Fin (1 / 2) < Fin 0 + Fin 1 \<and> \<not> Fin 1 < minStep_of (Fin 0) \<and>
   step_try dormandPrince (\<lambda>x y. [Fin 0]) (Fin 0) [Fin 0] (Fin (1 / 2))
     \<lparr>tol_abs = Fin (1 / 10 ^ 6), tol_rel = Fin (1 / 10 ^ 3)\<rparr> [Fin 0] [Fin 0] (Fin 1)
     = (Fin (1 / 2), Fin (1 / 2), [Fin 0], [Fin 0], Fin 0) \<and>
   Fin 0 < Fin 1 \<and>
   rungeKuttaStep_loop dormandPrince (\<lambda>x y. [Fin 0]) (Fin 0) [Fin 0] (Fin (1 / 2))
     \<lparr>tol_abs = Fin (1 / 10 ^ 6), tol_rel = Fin (1 / 10 ^ 3)\<rparr> (minStep_of (Fin 0))
     [Fin 0] [Fin 0] (Fin 1) False
     = Some (Fin (1 / 2), (Fin (1 / 2) - Fin 0) * accept_factor dormandPrince (Fin 0) False,
             None, [Fin 0], [Fin 0])"
proof -
  let ?f = "\<lambda>(x::float64) (y::float64 list). [Fin 0]"
  let ?tol = "\<lparr>tol_abs = Fin (1 / 10 ^ 6), tol_rel = Fin (1 / 10 ^ 3)\<rparr>"
  have 1: "Fin (1 / 2) < Fin 0 + Fin 1" by (simp add: float_ops)
  have 2: "\<not> Fin 1 < minStep_of (Fin 0)"
    using minStep_zero_small by (simp add: minStep_of_zero float_ops)
  have 3: "step_try dormandPrince ?f (Fin 0) [Fin 0] (Fin (1 / 2)) ?tol [Fin 0] [Fin 0] (Fin 1)
     = (Fin (1 / 2), Fin (1 / 2), [Fin 0], [Fin 0], Fin 0)"
    unfolding try_zero_ode by simp
  have 4: "Fin 0 < Fin 1" by (simp add: float_ops)
  from C6_clamped_next_step[where xMax = "Fin (1 / 2)" and x = "Fin 0" and h = "Fin 1"
      and minStep = "minStep_of (Fin 0)" and rk = dormandPrince and f = ?f and y = "[Fin 0]"
      and tol = ?tol and yPlusH = "[Fin 0]" and te = "[Fin 0]" and xp = "Fin (1 / 2)"
      and hc = "Fin (1 / 2)" and yp = "[Fin 0]" and t = "[Fin 0]" and en = "Fin 0"
      and rejected = False] 1 2 3 4
  show ?thesis by blast
qed

text \<open>
  The claim as stated fails: from the same state of the controller (\<open>h = 1\<close>, error
  norm 0, factor 10) the proposed next step size is 5 when the step is clamped to
  \<open>xMax = 1/2\<close> and 10 when it is not: the proposal comes from the clamped \<open>h\<close>.
\<close>

theorem C6_clamped_next_step_counterexample:
  "rungeKuttaStep [Fin 0] [Fin 0] dormandPrince (\<lambda>x y. [Fin 0]) (Fin 0) [Fin 0] (Fin 1) (Fin (1 / 2))
     \<lparr>tol_abs = Fin (1 / 10 ^ 6), tol_rel = Fin (1 / 10 ^ 3)\<rparr>
     = Some (Fin (1 / 2), Fin 5, None, [Fin 0], [Fin 0]) \<and>
   rungeKuttaStep [Fin 0] [Fin 0] dormandPrince (\<lambda>x y. [Fin 0]) (Fin 0) [Fin 0] (Fin 1) (Fin 2)
     \<lparr>tol_abs = Fin (1 / 10 ^ 6), tol_rel = Fin (1 / 10 ^ 3)\<rparr>
     = Some (Fin 1, Fin 10, None, [Fin 0], [Fin 0]) \<and>
   Fin 5 \<noteq> Fin 1 * accept_factor dormandPrince (Fin 0) False"
proof -
  have a: "rungeKuttaStep [Fin 0] [Fin 0] dormandPrince (\<lambda>x y. [Fin 0]) (Fin 0) [Fin 0] (Fin 1) (Fin (1 / 2))
     \<lparr>tol_abs = Fin (1 / 10 ^ 6), tol_rel = Fin (1 / 10 ^ 3)\<rparr>
     = Some (Fin (1 / 2), Fin 5, None, [Fin 0], [Fin 0])"
    unfolding rungeKuttaStep_def Let_def minStep_of_zero
    apply (subst step_loop_unfold)
    unfolding try_zero_ode
    using minStep_zero_small
    apply (simp add: float_ops accept_factor_def maxFactor_def)
    done
  have b: "rungeKuttaStep [Fin 0] [Fin 0] dormandPrince (\<lambda>x y. [Fin 0]) (Fin 0) [Fin 0] (Fin 1) (Fin 2)
     \<lparr>tol_abs = Fin (1 / 10 ^ 6), tol_rel = Fin (1 / 10 ^ 3)\<rparr>
     = Some (Fin 1, Fin 10, None, [Fin 0], [Fin 0])"
    unfolding rungeKuttaStep_def Let_def minStep_of_zero
    apply (subst step_loop_unfold)
    unfolding try_zero_ode
    using minStep_zero_small
    apply (simp add: float_ops accept_factor_def maxFactor_def)
    done
  have c: "Fin 5 \<noteq> Fin 1 * accept_factor dormandPrince (Fin 0) False"
    by (simp add: float_ops accept_factor_def maxFactor_def)
  from a b c show ?thesis by blast
qed

section \<open>C8: the last stage of Dormand-Prince\<close>






















section \<open>C7: the initial step\<close>










lemma fmul_commute: "(a::float64) * b = b * a"
  by (cases a; cases b) (simp_all add: float_ops mult.commute)

lemma rms_sum_cong: "(\<And>i. i < n \<Longrightarrow> v i = w i) \<Longrightarrow> rms_sum v n = rms_sum w n"
  unfolding rms_sum_def by (rule fold_cong) auto


lemma rms_scale:
  "rms_sum (\<lambda>i. g i / map (\<lambda>y. ta + math_Abs y * tr) y0 ! i) (length y0)
   = rms_sum (\<lambda>i. g i / (ta + tr * math_Abs (y0 ! i))) (length y0)"
  by (rule rms_sum_cong) (simp add: fmul_commute)






section \<open>C10: an empty interval\<close>





section \<open>C9: the caller's y0\<close>

lemma integrate_loop_st_induct:
  assumes step: "\<And>F rk f xspan y0 tol xs ys x y te h st r.
     (\<And>rk f xspan y0 tol xs ys x y te h st r.
         F rk f xspan y0 tol xs ys x y te h st = Some r \<Longrightarrow> Q rk f xspan y0 tol xs ys x y te h st r) \<Longrightarrow>
     (if x < snd xspan then
        (let (yPlusH, st) = make_st st (length (st_cells st y0))
         in Option.bind
              (rungeKuttaStep (st_cells st yPlusH) (st_cells st te) rk f x (st_cells st y) h
                 (snd xspan) tol)
              (\<lambda>(xPlusH, newH, err, yPlusH_new, te_new).
                 (let st = write_st (write_st st yPlusH yPlusH_new) te te_new
                  in case err of
                       Some e \<Rightarrow> Some (([], [], Some (Wrap e [])), st)
                     | None \<Rightarrow>
                         F rk f xspan y0 tol
                           (xs @ [xPlusH]) (ys @ [yPlusH]) xPlusH y te newH
                           (write_st st y (copy_slice (st_cells st y) (st_cells st yPlusH))))))
      else Some ((xs, ys, None), st)) = Some r \<Longrightarrow>
     Q rk f xspan y0 tol xs ys x y te h st r"
    and run: "rungeKuttaIntegrate_loop_st rk f xspan y0 tol xs ys x y te h st = Some r"
  shows "Q rk f xspan y0 tol xs ys x y te h st r"
  using run
  apply (rule rungeKuttaIntegrate_loop_st.raw_induct
      [where xa = "(((((((((((rk, f), xspan), y0), tol), xs), ys), x), y), te), h), st)" and P = Q,
        simplified, rotated])
  apply (rule step)
   apply assumption
  apply assumption
  done

lemma make_st_simps:
  "fst (make_st st n) = st_free st"
  "st_free (snd (make_st st n)) = Suc (st_free st)"
  "a \<noteq> st_free st \<Longrightarrow> st_cells (snd (make_st st n)) a = st_cells st a"
  "st_cells (snd (make_st st n)) (st_free st) = make_slice n"
  by (simp_all add: make_st_def)

lemma write_st_simps:
  "st_free (write_st st a v) = st_free st"
  "b \<noteq> a \<Longrightarrow> st_cells (write_st st a v) b = st_cells st b"
  "st_cells (write_st st a v) a = v"
  by (simp_all add: write_st_def)

lemma integrate_loop_st_frame:
  assumes "rungeKuttaIntegrate_loop_st rk f xspan y0 tol xs ys x y te h st = Some r"
  shows "y0 < st_free st \<and> y \<noteq> y0 \<and> te \<noteq> y0 \<and> ys \<noteq> [] \<and> ys ! 0 = y0 \<longrightarrow>
     st_cells (snd r) y0 = st_cells st y0 \<and>
     (snd (snd (fst r)) = None \<longrightarrow> fst (snd (fst r)) \<noteq> [] \<and> fst (snd (fst r)) ! 0 = y0)"
proof (rule integrate_loop_st_induct[where Q = "\<lambda>rk f xspan y0 tol xs ys x y te h st r.
     y0 < st_free st \<and> y \<noteq> y0 \<and> te \<noteq> y0 \<and> ys \<noteq> [] \<and> ys ! 0 = y0 \<longrightarrow>
     st_cells (snd r) y0 = st_cells st y0 \<and>
     (snd (snd (fst r)) = None \<longrightarrow> fst (snd (fst r)) \<noteq> [] \<and> fst (snd (fst r)) ! 0 = y0)",
     OF _ assms], goal_cases)
  case (1 F rk f xspan y0 tol xs ys x y te h st r)
  show ?case
  proof (intro impI)
    assume a: "y0 < st_free st \<and> y \<noteq> y0 \<and> te \<noteq> y0 \<and> ys \<noteq> [] \<and> ys ! 0 = y0"
    show "st_cells (snd r) y0 = st_cells st y0 \<and>
     (snd (snd (fst r)) = None \<longrightarrow> fst (snd (fst r)) \<noteq> [] \<and> fst (snd (fst r)) ! 0 = y0)"
    proof (cases "x < snd xspan")
      case False
      with 1(2) have "r = ((xs, ys, None), st)" by simp
      with a show ?thesis by simp
    next
      case True
      define p where "p = st_free st"
      define st1 where "st1 = snd (make_st st (length (st_cells st y0)))"
      have mk: "make_st st (length (st_cells st y0)) = (p, st1)"
        by (simp add: p_def st1_def make_st_def)
      have p: "p \<noteq> y0" using a by (simp add: p_def)
      have c1: "st_cells st1 y0 = st_cells st y0" "st_free st1 = Suc (st_free st)"
        using p by (simp_all add: st1_def make_st_simps p_def)
      from 1(2) True mk obtain s where
        s: "rungeKuttaStep (st_cells st1 p) (st_cells st1 te) rk f x (st_cells st1 y) h (snd xspan) tol = Some s"
        by (auto simp: Let_def bind_eq_Some_conv)
      obtain xp nh err yp t where s': "s = (xp, nh, err, yp, t)" by (cases s)
      define st2 where "st2 = write_st (write_st st1 p yp) te t"
      have c2: "st_cells st2 y0 = st_cells st y0" "st_free st2 = Suc (st_free st)"
        using p a c1 by (simp_all add: st2_def write_st_simps)
      show ?thesis
      proof (cases err)
        case (Some e)
        with 1(2) True mk s s' have "r = (([], [], Some (Wrap e [])), st2)"
          by (simp add: Let_def st2_def)
        with c2 show ?thesis by simp
      next
        case None
        define st3 where "st3 = write_st st2 y (copy_slice (st_cells st2 y) (st_cells st2 p))"
        have c3: "st_cells st3 y0 = st_cells st y0" "st_free st3 = Suc (st_free st)"
          using a c2 by (simp_all add: st3_def write_st_simps)
        from 1(2) True mk s s' None
        have F: "F rk f xspan y0 tol (xs @ [xp]) (ys @ [p]) xp y te nh st3 = Some r"
          by (simp add: Let_def st2_def st3_def)
        have pre: "y0 < st_free st3 \<and> y \<noteq> y0 \<and> te \<noteq> y0 \<and> ys @ [p] \<noteq> [] \<and> (ys @ [p]) ! 0 = y0"
          using a c3 by (simp add: nth_append)
        from 1(1)[OF F, THEN mp, OF pre] c3 show ?thesis by simp
      qed
    qed
  qed
qed

text \<open>
  C9. \<open>DormandPrince\<close> does not write to the caller's \<open>y0\<close> slice: in the store the call
  leaves, the slice at the address of \<open>y0\<close> holds what it held before. On success the
  first element of the returned \<open>ys\<close> is the address of \<open>y0\<close> itself: no copy was made, the
  first point of the trajectory and the caller's \<open>y0\<close> are one slice.
\<close>

theorem C9_y0_not_written:
  "y0 < st_free st \<and> DormandPrince_st f xspan y0 st = Some ((xs, ys, err), st') \<longrightarrow>
   st_cells st' y0 = st_cells st y0 \<and> (err = None \<longrightarrow> ys \<noteq> [] \<and> ys ! 0 = y0)"
proof (intro impI)
  assume a: "y0 < st_free st \<and> DormandPrince_st f xspan y0 st = Some ((xs, ys, err), st')"
  let ?n = "length (st_cells st y0)"
  define st1 where "st1 = snd (make_st st ?n)"
  define st2 where "st2 = write_st st1 (st_free st) (copy_slice (st_cells st1 (st_free st)) (st_cells st1 y0))"
  define st3 where "st3 = snd (make_st st2 (length (st_cells st2 y0)))"
  have ne: "st_free st \<noteq> y0" using a by simp
  have c1: "st_cells st1 y0 = st_cells st y0" "st_free st1 = Suc (st_free st)"
    using ne by (simp_all add: st1_def make_st_simps)
  have c2: "st_cells st2 y0 = st_cells st y0" "st_free st2 = Suc (st_free st)"
    using ne c1 by (simp_all add: st2_def write_st_simps)
  have c3: "st_cells st3 y0 = st_cells st y0" "st_free st3 = Suc (Suc (st_free st))"
    using a c2 by (simp_all add: st3_def make_st_simps)
  let ?tol = "\<lparr>tol_abs = Fin (1 / 10 ^ 6), tol_rel = Fin (1 / 10 ^ 3)\<rparr>"
  let ?h = "fst (getFirstStep dormandPrince f xspan (st_cells st y0) ?tol)"
  have mk1: "make_st st ?n = (st_free st, st1)"
    by (simp add: st1_def make_st_def)
  have mk2: "make_st st2 (length (st_cells st2 y0)) = (Suc (st_free st), st3)"
    using c2 by (simp add: st3_def make_st_def)
  from a have "DormandPrince_st f xspan y0 st = Some ((xs, ys, err), st')" by simp
  then have run: "rungeKuttaIntegrate_loop_st dormandPrince f xspan y0 ?tol ([] @ [fst xspan]) ([] @ [y0])
      (fst xspan) (st_free st) (Suc (st_free st)) ?h st3 = Some ((xs, ys, err), st')"
    unfolding DormandPrince_st_def rungeKuttaIntegrate_st_def Let_def mk1 prod.case
      st2_def[symmetric] mk2 .
  have pre: "y0 < st_free st3 \<and> st_free st \<noteq> y0 \<and> Suc (st_free st) \<noteq> y0 \<and> [] @ [y0] \<noteq> [] \<and> ([] @ [y0]) ! 0 = y0"
    using a c3 by simp
  from integrate_loop_st_frame[OF run, THEN mp, OF pre] c3
  show "st_cells st' y0 = st_cells st y0 \<and> (err = None \<longrightarrow> ys \<noteq> [] \<and> ys ! 0 = y0)"
    by simp
qed

lemma C9_run:
  "DormandPrince_st (\<lambda>x y. [Fin 0]) (Fin 0, Fin (1 / 10 ^ 6)) 0
     \<lparr>st_cells = (\<lambda>a. [])(0 := [Fin 0]), st_free = 1\<rparr>
   = Some (([Fin 0, Fin (1 / 10 ^ 6)], [0, 3], None),
       \<lparr>st_cells = (\<lambda>a. [])
          (0 := [Fin 0], Suc (Suc (Suc 0)) := [Fin 0], Suc (Suc 0) := [Fin 0], Suc 0 := [Fin 0]),
        st_free = Suc (Suc (Suc (Suc 0)))\<rparr>)"
  unfolding DormandPrince_st_def rungeKuttaIntegrate_st_def Let_def
  apply (simp add: make_st_def write_st_def C1_first_step[simplified] make_slice_def copy_slice_def)
  apply (subst rungeKuttaIntegrate_loop_st.simps)
  apply (simp add: make_st_def write_st_def make_slice_def copy_slice_def float_ops C1_step[simplified])
  apply (subst rungeKuttaIntegrate_loop_st.simps)
  apply (simp add: float_ops)
  done

theorem C9_y0_not_written_witness:
  "(0::nat) < st_free \<lparr>st_cells = (\<lambda>a. [])(0 := [Fin 0]), st_free = 1\<rparr> \<and>
   DormandPrince_st (\<lambda>x y. [Fin 0]) (Fin 0, Fin (1 / 10 ^ 6)) 0
     \<lparr>st_cells = (\<lambda>a. [])(0 := [Fin 0]), st_free = 1\<rparr>
   = Some (([Fin 0, Fin (1 / 10 ^ 6)], [0, 3], None),
       \<lparr>st_cells = (\<lambda>a. [])
          (0 := [Fin 0], Suc (Suc (Suc 0)) := [Fin 0], Suc (Suc 0) := [Fin 0], Suc 0 := [Fin 0]),
        st_free = Suc (Suc (Suc (Suc 0)))\<rparr>) \<and>
   st_cells \<lparr>st_cells = (\<lambda>a. [])
          (0 := [Fin 0], Suc (Suc (Suc 0)) := [Fin 0], Suc (Suc 0) := [Fin 0], Suc 0 := [Fin 0]),
        st_free = Suc (Suc (Suc (Suc 0)))\<rparr> 0
     = st_cells \<lparr>st_cells = (\<lambda>a. [])(0 := [Fin 0]), st_free = 1\<rparr> 0 \<and>
   [0, 3] ! 0 = (0::nat)"
proof -
  have h: "(0::nat) < st_free \<lparr>st_cells = (\<lambda>a. [])(0 := [Fin 0]), st_free = 1\<rparr>" by simp
  from C9_y0_not_written[where ?y0.0 = 0
      and st = "\<lparr>st_cells = (\<lambda>a. [])(0 := [Fin 0]), st_free = 1\<rparr>"
      and f = "\<lambda>x y. [Fin 0]" and xspan = "(Fin 0, Fin (1 / 10 ^ 6))"
      and xs = "[Fin 0, Fin (1 / 10 ^ 6)]" and ys = "[0, 3]" and err = None
      and st' = "\<lparr>st_cells = (\<lambda>a. [])
          (0 := [Fin 0], Suc (Suc (Suc 0)) := [Fin 0], Suc (Suc 0) := [Fin 0], Suc 0 := [Fin 0]),
        st_free = Suc (Suc (Suc (Suc 0)))\<rparr>"] h C9_run
  show ?thesis by simp
qed

end
